theory Spec2Isabelle
  imports Main
begin

section \<open>Python values\<close>

text \<open>
  A Python \<open>str\<close> is represented by its UTF-8 byte sequence (an Isabelle \<open>string\<close>),
  a lone surrogate by the three bytes the same scheme gives it. Every character the
  server inspects or inserts is ASCII, and no byte of a multi-byte sequence is below 128,
  so the operations below act on the bytes exactly as the Python operations act on the
  code points. \<open>bytes\<close> are byte lists as well.
\<close>

text \<open>
  The exception classes that occur. Every one of them derives from \<open>Exception\<close>.
  \<open>HTTPError\<close> and \<open>RequestException\<close> are those of \<open>requests.exceptions\<close>
  (the second stands for every \<open>RequestException\<close> that is not an \<open>HTTPError\<close>),
  \<open>HttpError\<close> is \<open>googleapiclient.errors.HttpError\<close>. The argument is \<open>str(e)\<close>,
  except for \<open>KeyError\<close>, which carries the missing key.
\<close>

datatype py_exn =
    ValueError string
  | FileNotFoundError string
  | KeyError string
  | TypeError string
  | UnboundLocalError string
  | HTTPError string
  | RequestException string
  | HttpError string
  | OtherException string

fun exn_str :: "py_exn \<Rightarrow> string" where
  "exn_str (ValueError m) = m"
| "exn_str (FileNotFoundError m) = m"
| "exn_str (KeyError k) = [CHR 0x27] @ k @ [CHR 0x27]"
| "exn_str (TypeError m) = m"
| "exn_str (UnboundLocalError m) = m"
| "exn_str (HTTPError m) = m"
| "exn_str (RequestException m) = m"
| "exn_str (HttpError m) = m"
| "exn_str (OtherException m) = m"

text \<open>Truthiness of a value that is \<open>None\<close> or a \<open>str\<close>.\<close>

fun truthy :: "string option \<Rightarrow> bool" where
  "truthy None = False"
| "truthy (Some s) = (s \<noteq> [])"

text \<open>A text between single quotes.\<close>

definition quoted :: "string \<Rightarrow> string" where
  "quoted s = [CHR 0x27] @ s @ [CHR 0x27]"

text \<open>\<open>s.replace(x, r)\<close> for a pattern \<open>x\<close> of one character.\<close>

definition replace_char :: "char \<Rightarrow> string \<Rightarrow> string \<Rightarrow> string" where
  "replace_char x r s = concat (map (\<lambda>c. if c = x then r else [c]) s)"

text \<open>\<open>s.count(pat)\<close> for a pattern that cannot overlap itself: the positions where \<open>pat\<close> starts.\<close>

fun count_sub :: "string \<Rightarrow> string \<Rightarrow> nat" where
  "count_sub pat [] = 0"
| "count_sub pat (c # s) = (if take (length pat) (c # s) = pat then 1 else 0) + count_sub pat s"

text \<open>\<open>pat in s\<close> for two strings.\<close>

fun contains :: "string \<Rightarrow> string \<Rightarrow> bool" where
  "contains [] pat = (pat = [])"
| "contains (c # s) pat = (take (length pat) (c # s) = pat \<or> contains s pat)"

section \<open>Standard library: html.escape, str.splitlines, base64\<close>

text \<open>
  \<open>html.escape(s)\<close> with \<open>quote=True\<close>, as \<^verbatim>\<open>html/__init__.py\<close> writes it: five
  replacements in this order, the ampersand first.
\<close>

definition html_escape :: "string \<Rightarrow> string" where
  "html_escape s0 =
     (let s = replace_char (CHR ''&'') ''&amp;'' s0;
          s = replace_char (CHR ''<'') ''&lt;'' s;
          s = replace_char (CHR ''>'') ''&gt;'' s;
          s = replace_char (CHR 0x22) ''&quot;'' s;
          s = replace_char (CHR 0x27) ''&#x27;'' s
      in s)"

text \<open>
  \<open>str.splitlines\<close>. \<open>linebreak_len s\<close> is the length in bytes of the line boundary
  that starts \<open>s\<close>, or 0: CR LF, then LF, VT, FF, CR, FS, GS, RS, then NEL (U+0085),
  LINE SEPARATOR (U+2028) and PARAGRAPH SEPARATOR (U+2029) in UTF-8.
\<close>

definition linebreak_len :: "string \<Rightarrow> nat" where
  "linebreak_len s =
     (if take 2 s = [CHR 0x0D, CHR 0x0A] then 2
      else if take 1 s \<in> {[CHR 0x0A], [CHR 0x0B], [CHR 0x0C], [CHR 0x0D],
                           [CHR 0x1C], [CHR 0x1D], [CHR 0x1E]} then 1
      else if take 2 s = [CHR 0xC2, CHR 0x85] then 2
      else if take 3 s = [CHR 0xE2, CHR 0x80, CHR 0xA8] then 3
      else if take 3 s = [CHR 0xE2, CHR 0x80, CHR 0xA9] then 3
      else 0)"

function splitlines_from :: "string \<Rightarrow> string \<Rightarrow> string list" where
  "splitlines_from cur s =
     (if s = [] then (if cur = [] then [] else [cur])
      else if linebreak_len s = 0 then splitlines_from (cur @ [hd s]) (tl s)
      else cur # splitlines_from [] (drop (linebreak_len s) s))"
  by pat_completeness auto
termination
  by (relation "measure (\<lambda>(cur, s). length s)") auto

definition splitlines :: "string \<Rightarrow> string list" where
  "splitlines s = splitlines_from [] s"

text \<open>
  \<open>base64.b64encode\<close> (RFC 4648, with padding) and \<open>base64.urlsafe_b64encode\<close>, which
  translates \<open>+\<close> to \<open>-\<close> and \<open>/\<close> to \<open>_\<close> afterwards.
\<close>

definition b64_alphabet :: string where
  "b64_alphabet = ''ABCDEFGHIJKLMNOPQRSTUVWXYZabcdefghijklmnopqrstuvwxyz0123456789+/''"

definition b64_char :: "nat \<Rightarrow> char" where
  "b64_char n = b64_alphabet ! (n mod 64)"

fun b64encode :: "string \<Rightarrow> string" where
  "b64encode (a # b # c # rest) =
     (let x = (of_char a :: nat); y = (of_char b :: nat); z = (of_char c :: nat)
      in [b64_char (x div 4), b64_char ((x mod 4) * 16 + y div 16),
          b64_char ((y mod 16) * 4 + z div 64), b64_char (z mod 64)] @ b64encode rest)"
| "b64encode [a, b] =
     (let x = (of_char a :: nat); y = (of_char b :: nat)
      in [b64_char (x div 4), b64_char ((x mod 4) * 16 + y div 16),
          b64_char ((y mod 16) * 4), CHR ''=''])"
| "b64encode [a] =
     (let x = (of_char a :: nat)
      in [b64_char (x div 4), b64_char ((x mod 4) * 16), CHR ''='', CHR ''=''])"
| "b64encode [] = []"

definition urlsafe_translate :: "char \<Rightarrow> char" where
  "urlsafe_translate c = (if c = CHR ''+'' then CHR ''-'' else if c = CHR ''/'' then CHR ''_'' else c)"

definition urlsafe_b64encode :: "string \<Rightarrow> string" where
  "urlsafe_b64encode s = map urlsafe_translate (b64encode s)"

section \<open>The message library: email.message.EmailMessage\<close>

text \<open>
  The message object as far as the server fills it: the content given to
  \<open>set_content\<close> with its subtype, and the headers in the order of assignment, each
  with the value the library has made of the assigned string. How the library folds and
  encodes them is the work of \<open>as_bytes\<close>, which belongs to the environment (see
  \<open>library\<close> below).
\<close>

record email_message =
  content :: string
  subtype :: string
  headers :: "(string \<times> string) list"

definition EmailMessage :: email_message where
  "EmailMessage = \<lparr>content = [], subtype = ''plain'', headers = []\<rparr>"

section \<open>The environment\<close>

text \<open>
  The credential object of \<open>google.oauth2.credentials\<close>, as far as the server reads it:
  the properties \<open>valid\<close> and \<open>expired\<close> and the attribute \<open>refresh_token\<close>.
\<close>

record credentials =
  valid :: bool
  expired :: bool
  refresh_token :: "string option"

text \<open>The handle returned by \<open>build("gmail", "v1", credentials=creds)\<close>.\<close>

record service =
  service_credentials :: credentials

text \<open>
  A JSON value, and the response of \<open>requests.post\<close>: status, reason phrase,
  \<open>response.url\<close>, \<open>response.text\<close>, and what \<open>response.json()\<close> gives, a value
  or an exception.
\<close>

datatype json =
    JNull
  | JBool bool
  | JNum int
  | JStr string
  | JArr "json list"
  | JObj "(string \<times> json) list"

record response =
  status_code :: nat
  reason :: string
  resp_url :: string
  resp_text :: string
  json_result :: "py_exn + json"

text \<open>
  What the server does to the outside, in order. \<open>RunLocalServer\<close> is the interactive
  consent flow (\<open>flow.run_local_server\<close>: a local callback server is bound and the
  consent URL opened).
\<close>

datatype event =
    PathExists string
  | ReadTokenFile
  | RefreshRequest
  | ReadClientSecrets
  | RunLocalServer
  | WriteTokenFile string
  | BuildService
  | SendRequest string
  | HttpPost string "(string \<times> string) list" "(string \<times> string) list"
  | Print string

fun network_io :: "event \<Rightarrow> bool" where
  "network_io RefreshRequest = True"
| "network_io RunLocalServer = True"
| "network_io BuildService = True"
| "network_io (SendRequest raw) = True"
| "network_io (HttpPost url params hdrs) = True"
| "network_io (PathExists p) = False"
| "network_io ReadTokenFile = False"
| "network_io ReadClientSecrets = False"
| "network_io (WriteTokenFile txt) = False"
| "network_io (Print txt) = False"

text \<open>
  The behaviour of the libraries and services the server calls, one function per call
  site. Each returns what the call returns, or the exception it raises.
  \<open>set_text_content\<close> is the exception that encoding the content raises inside
  \<open>set_content\<close>, if any (\<open>UnicodeEncodeError\<close> for a lone surrogate).
  \<open>header_factory\<close> is the parser of a header value: it returns the value the header
  then has, which need not be the string assigned (an address list is normalised, an
  encoded word decoded), or raises (\<open>IndexError\<close> for the recipient \<open>Ada <\<close>).
\<close>

record library =
  from_authorized_user_file :: "string \<Rightarrow> py_exn + credentials"
  refresh :: "credentials \<Rightarrow> py_exn + credentials"
  from_client_secrets_file :: "string \<Rightarrow> py_exn + string"
  run_local_server :: "string \<Rightarrow> py_exn + credentials"
  to_json :: "credentials \<Rightarrow> string"
  open_write :: "string \<Rightarrow> py_exn option"
  build :: "credentials \<Rightarrow> py_exn + service"
  set_text_content :: "string \<Rightarrow> py_exn option"
  header_factory :: "string \<Rightarrow> string \<Rightarrow> py_exn + string"
  as_bytes :: "email_message \<Rightarrow> py_exn + string"
  execute_send :: "service \<Rightarrow> string \<Rightarrow> py_exn + (string \<times> string) list"
  post :: "string \<Rightarrow> (string \<times> string) list \<Rightarrow> (string \<times> string) list \<Rightarrow> py_exn + response"
  str_of_json :: "json \<Rightarrow> string"

text \<open>The files beside the script and the trace of events so far.\<close>

record world =
  token_file :: "string option"
  credentials_file :: "string option"
  trace :: "event list"

definition emit :: "event \<Rightarrow> world \<Rightarrow> world" where
  "emit e w = w\<lparr>trace := trace w @ [e]\<rparr>"

definition TOKEN_PATH :: string where
  "TOKEN_PATH = ''token.json''"

definition CREDENTIALS_PATH :: string where
  "CREDENTIALS_PATH = ''credentials.json''"

section \<open>server.py: the mail session\<close>

text \<open>
  \<open>get_gmail_service\<close>, lines 59 to 87, block by block. \<open>load_token\<close> is lines 67
  and 68: \<open>creds\<close> stays \<open>None\<close> unless the token file exists.
\<close>

definition load_token :: "library \<Rightarrow> world \<Rightarrow> (py_exn + credentials option) \<times> world" where
  "load_token lib w0 =
     (let w = emit (PathExists TOKEN_PATH) w0
      in case token_file w of
           None \<Rightarrow> (Inr None, w)
         | Some txt \<Rightarrow>
             (case from_authorized_user_file lib txt of
                Inl e \<Rightarrow> (Inl e, emit ReadTokenFile w)
              | Inr c \<Rightarrow> (Inr (Some c), emit ReadTokenFile w)))"

text \<open>
  Lines 74 to 82, the consent flow: the client-secret file must exist, then
  \<open>InstalledAppFlow.from_client_secrets_file\<close> and \<open>flow.run_local_server(port=0)\<close>.
\<close>

definition acquire :: "library \<Rightarrow> world \<Rightarrow> (py_exn + credentials) \<times> world" where
  "acquire lib w0 =
     (let w = emit (PathExists CREDENTIALS_PATH) w0
      in case credentials_file w of
           None \<Rightarrow>
             (Inl (FileNotFoundError
                (''Error: '' @ quoted ''credentials.json'' @ '' not found. '' @
                 ''Please ensure the credentials file is in the same directory as the server script.'')),
              w)
         | Some secrets \<Rightarrow>
             (case from_client_secrets_file lib secrets of
                Inl e \<Rightarrow> (Inl e, emit ReadClientSecrets w)
              | Inr flow \<Rightarrow>
                  (run_local_server lib flow, emit RunLocalServer (emit ReadClientSecrets w))))"

text \<open>
  Lines 71 to 73: \<open>creds.refresh(Request())\<close> when \<open>creds\<close> is there, expired and
  carries a refresh token; the consent flow otherwise.
\<close>

definition renew :: "library \<Rightarrow> credentials option \<Rightarrow> world \<Rightarrow> (py_exn + credentials) \<times> world" where
  "renew lib creds w =
     (case creds of
        None \<Rightarrow> acquire lib w
      | Some c \<Rightarrow>
          if expired c \<and> truthy (refresh_token c)
          then (refresh lib c, emit RefreshRequest w)
          else acquire lib w)"

text \<open>Lines 84 and 85: the token file is opened for writing and \<open>creds.to_json()\<close> written.\<close>

definition save_token :: "library \<Rightarrow> credentials \<Rightarrow> world \<Rightarrow> py_exn option \<times> world" where
  "save_token lib c w =
     (case open_write lib TOKEN_PATH of
        Some e \<Rightarrow> (Some e, w)
      | None \<Rightarrow> (None, emit (WriteTokenFile (to_json lib c)) (w\<lparr>token_file := Some (to_json lib c)\<rparr>)))"

text \<open>Line 87.\<close>

definition build_service :: "library \<Rightarrow> credentials \<Rightarrow> world \<Rightarrow> (py_exn + service) \<times> world" where
  "build_service lib c w = (build lib c, emit BuildService w)"

text \<open>The body of the \<open>if\<close> of line 70, followed by line 87.\<close>

definition login :: "library \<Rightarrow> credentials option \<Rightarrow> world \<Rightarrow> (py_exn + service) \<times> world" where
  "login lib creds w =
     (case renew lib creds w of
        (Inl e, w1) \<Rightarrow> (Inl e, w1)
      | (Inr c, w1) \<Rightarrow>
          (case save_token lib c w1 of
             (Some e, w2) \<Rightarrow> (Inl e, w2)
           | (None, w2) \<Rightarrow> build_service lib c w2))"

definition get_gmail_service :: "library \<Rightarrow> world \<Rightarrow> (py_exn + service) \<times> world" where
  "get_gmail_service lib w0 =
     (case load_token lib w0 of
        (Inl e, w) \<Rightarrow> (Inl e, w)
      | (Inr None, w) \<Rightarrow> login lib None w
      | (Inr (Some c), w) \<Rightarrow>
          if \<not> valid c then login lib (Some c) w else build_service lib c w)"

section \<open>server.py: composing and sending\<close>

text \<open>Lines 100 to 102 of \<open>send_email\<close>.\<close>

definition html_formatted_body :: "string \<Rightarrow> string" where
  "html_formatted_body body = replace_char (CHR 0x0A) ''<br>'' (html_escape body)"

definition html_body :: "string \<Rightarrow> string" where
  "html_body body = ''<html><body>'' @ html_formatted_body body @ ''<br></body></html>''"

text \<open>
  \<open>message.set_content(html_body, subtype="html")\<close>, line 103: the library encodes the
  text, which may raise, and the message holds the content.
\<close>

definition set_content :: "library \<Rightarrow> email_message \<Rightarrow> string \<Rightarrow> string \<Rightarrow> py_exn + email_message" where
  "set_content lib message c st =
     (case set_text_content lib c of
        Some e \<Rightarrow> Inl e
      | None \<Rightarrow> Inr (message\<lparr>content := c, subtype := st\<rparr>))"

text \<open>
  \<open>message[name] = value\<close>, lines 104 to 106. With the default policy the assignment
  goes through \<open>EmailPolicy.header_store_parse\<close> (\<^verbatim>\<open>email/policy.py\<close>): it raises
  \<open>ValueError\<close> when \<open>len(value.splitlines()) > 1\<close>, and gives the value to the
  header factory otherwise. Each of To, From and Subject is assigned once on a fresh
  message, so the limit of one header of each name is never reached.
\<close>

definition header_store_parse :: "library \<Rightarrow> string \<Rightarrow> string \<Rightarrow> py_exn + (string \<times> string)" where
  "header_store_parse lib name v =
     (if length (splitlines v) > 1
      then Inl (ValueError ''Header values may not contain linefeed or carriage return characters'')
      else (case header_factory lib name v of
              Inl e \<Rightarrow> Inl e
            | Inr h \<Rightarrow> Inr (name, h)))"

definition setitem :: "library \<Rightarrow> email_message \<Rightarrow> string \<Rightarrow> string \<Rightarrow> py_exn + email_message" where
  "setitem lib message name v =
     (case header_store_parse lib name v of
        Inl e \<Rightarrow> Inl e
      | Inr h \<Rightarrow> Inr (message\<lparr>headers := headers message @ [h]\<rparr>))"

text \<open>Lines 97 to 106: the message is created and filled.\<close>

definition build_message :: "library \<Rightarrow> string \<Rightarrow> string \<Rightarrow> string \<Rightarrow> py_exn + email_message" where
  "build_message lib recipient_email subject body =
     (case set_content lib EmailMessage (html_body body) ''html'' of
        Inl e \<Rightarrow> Inl e
      | Inr m0 \<Rightarrow>
          (case setitem lib m0 ''To'' recipient_email of
             Inl e \<Rightarrow> Inl e
           | Inr m1 \<Rightarrow>
               (case setitem lib m1 ''From'' ''me'' of
                  Inl e \<Rightarrow> Inl e
                | Inr m2 \<Rightarrow> setitem lib m2 ''Subject'' subject)))"

text \<open>
  Lines 97 to 109: the message is filled and serialised, and the bytes are encoded.
  \<open>.decode()\<close> of the base64 bytes changes nothing in this representation.
\<close>

definition compose :: "library \<Rightarrow> string \<Rightarrow> string \<Rightarrow> string \<Rightarrow> py_exn + string" where
  "compose lib recipient_email subject body =
     (case build_message lib recipient_email subject body of
        Inl e \<Rightarrow> Inl e
      | Inr message \<Rightarrow>
          (case as_bytes lib message of
             Inl e \<Rightarrow> Inl e
           | Inr raw \<Rightarrow> Inr (urlsafe_b64encode raw)))"

text \<open>The body of the \<open>try\<close> block, lines 96 to 116.\<close>

definition send_email_try :: "library \<Rightarrow> world \<Rightarrow> string \<Rightarrow> string \<Rightarrow> string \<Rightarrow> (py_exn + string) \<times> world" where
  "send_email_try lib w0 recipient_email subject body =
     (case get_gmail_service lib w0 of
        (Inl e, w) \<Rightarrow> (Inl e, w)
      | (Inr svc, w) \<Rightarrow>
          (case compose lib recipient_email subject body of
             Inl e \<Rightarrow> (Inl e, w)
           | Inr encoded_message \<Rightarrow>
               (case execute_send lib svc encoded_message of
                  Inl e \<Rightarrow> (Inl e, emit (SendRequest encoded_message) w)
                | Inr send_message \<Rightarrow>
                    (case map_of send_message ''id'' of
                       None \<Rightarrow> (Inl (KeyError ''id''), emit (SendRequest encoded_message) w)
                     | Some msg_id \<Rightarrow>
                         (Inr (''Successfully sent email to '' @ recipient_email @
                               '' with Message ID: '' @ msg_id),
                          emit (Print (''Message Id: '' @ msg_id))
                            (emit (SendRequest encoded_message) w))))))"

text \<open>
  \<open>send_email\<close> with its two handlers, lines 117 to 122. The result is a sum so that an
  exception leaving the function would be a value \<open>Inl\<close>.
\<close>

definition send_email :: "library \<Rightarrow> world \<Rightarrow> string \<Rightarrow> string \<Rightarrow> string \<Rightarrow> (py_exn + string) \<times> world" where
  "send_email lib w0 recipient_email subject body =
     (case send_email_try lib w0 recipient_email subject body of
        (Inr msg, w) \<Rightarrow> (Inr msg, w)
      | (Inl (HttpError m), w) \<Rightarrow>
          (Inr (''Failed to send email. Error: '' @ m), emit (Print (''An error occurred: '' @ m)) w)
      | (Inl e, w) \<Rightarrow>
          (Inr (''An unexpected error occurred: '' @ exn_str e),
           emit (Print (''An unexpected error occurred: '' @ exn_str e)) w))"

section \<open>server.py: enrichment\<close>

text \<open>
  The interpreter's operations on the value of \<open>response.json()\<close>. Numbers are
  integers here. \<open>k in v\<close> and \<open>v[k]\<close> for a string key raise \<open>TypeError\<close> on the
  values that do not support them.
\<close>

fun json_truthy :: "json \<Rightarrow> bool" where
  "json_truthy JNull = False"
| "json_truthy (JBool b) = b"
| "json_truthy (JNum n) = (n \<noteq> 0)"
| "json_truthy (JStr s) = (s \<noteq> [])"
| "json_truthy (JArr xs) = (xs \<noteq> [])"
| "json_truthy (JObj kvs) = (kvs \<noteq> [])"

fun json_in :: "string \<Rightarrow> json \<Rightarrow> py_exn + bool" where
  "json_in k (JObj kvs) = Inr (map_of kvs k \<noteq> None)"
| "json_in k (JArr xs) = Inr (JStr k \<in> set xs)"
| "json_in k (JStr s) = Inr (contains s k)"
| "json_in k JNull = Inl (TypeError (''argument of type '' @ quoted ''NoneType'' @ '' is not iterable''))"
| "json_in k (JBool b) = Inl (TypeError (''argument of type '' @ quoted ''bool'' @ '' is not iterable''))"
| "json_in k (JNum n) = Inl (TypeError (''argument of type '' @ quoted ''int'' @ '' is not iterable''))"

fun json_getitem :: "json \<Rightarrow> string \<Rightarrow> py_exn + json" where
  "json_getitem (JObj kvs) k = (case map_of kvs k of None \<Rightarrow> Inl (KeyError k) | Some v \<Rightarrow> Inr v)"
| "json_getitem (JArr xs) k = Inl (TypeError ''list indices must be integers or slices, not str'')"
| "json_getitem (JStr s) k = Inl (TypeError (''string indices must be integers, not '' @ quoted ''str''))"
| "json_getitem JNull k = Inl (TypeError (quoted ''NoneType'' @ '' object is not subscriptable''))"
| "json_getitem (JBool b) k = Inl (TypeError (quoted ''bool'' @ '' object is not subscriptable''))"
| "json_getitem (JNum n) k = Inl (TypeError (quoted ''int'' @ '' object is not subscriptable''))"

text \<open>\<open>f"{v}"\<close>: a string as it is, any other value as the interpreter prints it.\<close>

definition format_json :: "library \<Rightarrow> json \<Rightarrow> string" where
  "format_json lib v = (case v of JStr s \<Rightarrow> s | _ \<Rightarrow> str_of_json lib v)"

text \<open>
  Lines 146 to 149, the condition evaluated left to right with short circuit:
  \<open>"person" in data and data["person"] and "email" in data["person"] and data["person"]["email"]\<close>.
\<close>

definition extract_email :: "library \<Rightarrow> json \<Rightarrow> py_exn + string" where
  "extract_email lib data =
     (case json_in ''person'' data of
        Inl e \<Rightarrow> Inl e
      | Inr False \<Rightarrow> Inr ''Email not found for the given details.''
      | Inr True \<Rightarrow>
          (case json_getitem data ''person'' of
             Inl e \<Rightarrow> Inl e
           | Inr person \<Rightarrow>
               if \<not> json_truthy person then Inr ''Email not found for the given details.''
               else
                 (case json_in ''email'' person of
                    Inl e \<Rightarrow> Inl e
                  | Inr False \<Rightarrow> Inr ''Email not found for the given details.''
                  | Inr True \<Rightarrow>
                      (case json_getitem person ''email'' of
                         Inl e \<Rightarrow> Inl e
                       | Inr email \<Rightarrow>
                           if json_truthy email then Inr (''Email found: '' @ format_json lib email)
                           else Inr ''Email not found for the given details.''))))"

text \<open>
  \<open>response.raise_for_status()\<close> of \<open>requests\<close>: an \<open>HTTPError\<close> for a status from 400
  to 599, whose text starts with the status code and names the reason and the URL of
  the response.
\<close>

fun digits :: "nat \<Rightarrow> nat \<Rightarrow> string" where
  "digits 0 n = []"
| "digits (Suc fuel) n =
     (if n < 10 then [char_of (48 + n)] else digits fuel (n div 10) @ [char_of (48 + n mod 10)])"

definition str_of_nat :: "nat \<Rightarrow> string" where
  "str_of_nat n = digits (Suc n) n"

definition api_endpoint :: string where
  "api_endpoint = ''https://api.apollo.io/api/v1/people/match''"

definition raise_for_status :: "response \<Rightarrow> py_exn option" where
  "raise_for_status r =
     (if 400 \<le> status_code r \<and> status_code r < 500
      then Some (HTTPError (str_of_nat (status_code r) @ '' Client Error: '' @ reason r @
                            '' for url: '' @ resp_url r))
      else if 500 \<le> status_code r \<and> status_code r < 600
      then Some (HTTPError (str_of_nat (status_code r) @ '' Server Error: '' @ reason r @
                            '' for url: '' @ resp_url r))
      else None)"

text \<open>The body of the \<open>try\<close> block of \<open>_enrich_person\<close>, lines 143 to 149, after the request.\<close>

definition handle_response :: "library \<Rightarrow> response \<Rightarrow> py_exn + string" where
  "handle_response lib r =
     (case raise_for_status r of
        Some e \<Rightarrow> Inl e
      | None \<Rightarrow>
          (case json_result r of
             Inl e \<Rightarrow> Inl e
           | Inr data \<Rightarrow> extract_email lib data))"

text \<open>
  The three handlers, lines 151 to 156. \<open>response\<close> is the local variable, bound only
  when \<open>requests.post\<close> has returned: the first handler reads \<open>response.text\<close>, and
  fails with \<open>UnboundLocalError\<close> when there is none.
\<close>

definition handlers :: "response option \<Rightarrow> py_exn \<Rightarrow> py_exn + string" where
  "handlers resp e =
     (case e of
        HTTPError m \<Rightarrow>
          (case resp of
             None \<Rightarrow> Inl (UnboundLocalError
               (''cannot access local variable '' @ quoted ''response'' @
                '' where it is not associated with a value''))
           | Some r \<Rightarrow> Inr (''HTTP error occurred: '' @ m @ '' - '' @ resp_text r))
      | RequestException m \<Rightarrow> Inr (''Request error occurred: '' @ m)
      | _ \<Rightarrow> Inr (''An unexpected error occurred: '' @ exn_str e))"

text \<open>
  \<open>_enrich_person\<close>, lines 127 to 156, with the module global \<open>APOLLO_API_KEY\<close> as
  first argument. The result comes with the requests sent.
\<close>

definition enrich_person :: "string option \<Rightarrow> library \<Rightarrow> (string \<times> string) list \<Rightarrow> (py_exn + string) \<times> event list" where
  "enrich_person key lib params =
     (case key of
        None \<Rightarrow> (Inl (ValueError ''APOLLO_API_KEY environment variable not set.''), [])
      | Some k \<Rightarrow>
          if k = [] then (Inl (ValueError ''APOLLO_API_KEY environment variable not set.''), [])
          else
            (let hdrs = [(''Content-Type'', ''application/json''), (''Cache-Control'', ''no-cache''),
                         (''x-api-key'', k)]
             in (case post lib api_endpoint params hdrs of
                   Inl e \<Rightarrow> handlers None e
                 | Inr r \<Rightarrow>
                     (case handle_response lib r of
                        Inl e \<Rightarrow> handlers (Some r) e
                      | Inr s \<Rightarrow> Inr s),
                 [HttpPost api_endpoint params hdrs])))"

text \<open>The two tools, lines 158 to 178.\<close>

definition find_email_by_name_and_company ::
  "string option \<Rightarrow> library \<Rightarrow> string \<Rightarrow> string \<Rightarrow> string \<Rightarrow> (py_exn + string) \<times> event list" where
  "find_email_by_name_and_company key lib first_name last_name company_name =
     enrich_person key lib
       [(''first_name'', first_name), (''last_name'', last_name), (''organization_name'', company_name)]"

definition find_email_by_linkedin ::
  "string option \<Rightarrow> library \<Rightarrow> string \<Rightarrow> (py_exn + string) \<times> event list" where
  "find_email_by_linkedin key lib linkedin_url =
     enrich_person key lib [(''person_linkedin_url'', linkedin_url)]"

text \<open>
  The values that count as false: null, false, zero, and the empty string, list and
  object. And a response object without an email to report: it has no \<open>person\<close>, or
  a \<open>person\<close> that is one of these values, or a person object whose \<open>email\<close> is
  missing or one of these values.
\<close>

fun empty_value :: "json \<Rightarrow> bool" where
  "empty_value JNull = True"
| "empty_value (JBool b) = (b = False)"
| "empty_value (JNum n) = (n = 0)"
| "empty_value (JStr s) = (s = [])"
| "empty_value (JArr xs) = (xs = [])"
| "empty_value (JObj kvs) = (kvs = [])"

definition no_email :: "(string \<times> json) list \<Rightarrow> bool" where
  "no_email data =
     (case map_of data ''person'' of
        None \<Rightarrow> True
      | Some (JObj person) \<Rightarrow>
          (case map_of person ''email'' of None \<Rightarrow> True | Some e \<Rightarrow> empty_value e)
      | Some p \<Rightarrow> empty_value p)"

section \<open>server.py: the module global\<close>

text \<open>
  Line 18 and line 125 run once, when the module is loaded: \<open>load_dotenv()\<close> adds the
  variables of the \<open>.env\<close> file that the environment does not define yet, and
  \<open>APOLLO_API_KEY = os.environ.get("APOLLO_API_KEY")\<close> stores the value in a global.
\<close>

record process =
  environ :: "string \<rightharpoonup> string"
  APOLLO_API_KEY :: "string option"

definition load_dotenv :: "(string \<rightharpoonup> string) \<Rightarrow> (string \<rightharpoonup> string) \<Rightarrow> (string \<rightharpoonup> string)" where
  "load_dotenv dotenv env = dotenv ++ env"

definition import_module :: "(string \<rightharpoonup> string) \<Rightarrow> (string \<rightharpoonup> string) \<Rightarrow> process" where
  "import_module dotenv env0 =
     (let env = load_dotenv dotenv env0
      in \<lparr>environ = env, APOLLO_API_KEY = env ''APOLLO_API_KEY''\<rparr>)"

text \<open>
  What happens to the process after the load: the environment is changed from
  elsewhere, or a tool is called. A tool call reads the global.
\<close>

datatype action =
    SetEnv string string
  | UnsetEnv string
  | FindByNameAndCompany string string string
  | FindByLinkedin string

fun perform :: "library \<Rightarrow> process \<Rightarrow> action \<Rightarrow> process \<times> ((py_exn + string) \<times> event list) option" where
  "perform lib p (SetEnv k v) = (p\<lparr>environ := (environ p)(k \<mapsto> v)\<rparr>, None)"
| "perform lib p (UnsetEnv k) = (p\<lparr>environ := (environ p)(k := None)\<rparr>, None)"
| "perform lib p (FindByNameAndCompany f l c) =
     (p, Some (find_email_by_name_and_company (APOLLO_API_KEY p) lib f l c))"
| "perform lib p (FindByLinkedin u) = (p, Some (find_email_by_linkedin (APOLLO_API_KEY p) lib u))"

fun run :: "library \<Rightarrow> process \<Rightarrow> action list \<Rightarrow> ((py_exn + string) \<times> event list) option list" where
  "run lib p [] = []"
| "run lib p (a # acts) = (case perform lib p a of (p', r) \<Rightarrow> r # run lib p' acts)"

text \<open>The process after a list of actions.\<close>

fun after :: "library \<Rightarrow> process \<Rightarrow> action list \<Rightarrow> process" where
  "after lib p [] = p"
| "after lib p (a # acts) = after lib (fst (perform lib p a)) acts"

section \<open>The reading side\<close>






text \<open>
  A reader gets the content back with the line ending the serialiser has put behind it:
  \<open>strip_eol\<close> removes line feeds and carriage returns from the end of the document.
  \<open>read_payload\<close> is the whole decoding of a payload, for a given reader of serialised
  messages (such as \<open>email.message_from_bytes\<close>).
\<close>

definition strip_eol :: "string \<Rightarrow> string" where
  "strip_eol doc = rev (dropWhile (\<lambda>c. c = CHR 0x0A \<or> c = CHR 0x0D) (rev doc))"



declare splitlines_from.simps [simp del]

section \<open>One character at a time\<close>

text \<open>
  What \<open>html.escape\<close>, and then the replacement of the line feed, make of one
  character. The lemmas below show that both functions work character by character.
\<close>

definition esc_char :: "char \<Rightarrow> string" where
  "esc_char c =
     (if c = CHR ''&'' then ''&amp;'' else if c = CHR ''<'' then ''&lt;''
      else if c = CHR ''>'' then ''&gt;'' else if c = CHR 0x22 then ''&quot;''
      else if c = CHR 0x27 then ''&#x27;'' else [c])"

definition fmt_char :: "char \<Rightarrow> string" where
  "fmt_char c = (if c = CHR 0x0A then ''<br>'' else esc_char c)"

section \<open>A sample environment\<close>




definition sample_response :: response where
  "sample_response =
     \<lparr>status_code = 200, reason = ''OK'', resp_url = api_endpoint, resp_text = ''{}'',
      json_result = Inr (JObj [(''person'', JObj [(''email'', JStr ''a@b.com'')])])\<rparr>"

definition sample_library :: library where
  "sample_library =
     \<lparr>from_authorized_user_file = (\<lambda>txt. Inr \<lparr>valid = False, expired = True, refresh_token = Some txt\<rparr>),
      refresh = (\<lambda>c. Inr (c\<lparr>valid := True, expired := False\<rparr>)),
      from_client_secrets_file = (\<lambda>txt. Inr txt),
      run_local_server = (\<lambda>flow. Inr \<lparr>valid = True, expired = False, refresh_token = Some ''fresh''\<rparr>),
      to_json = (\<lambda>c. case refresh_token c of None \<Rightarrow> [] | Some t \<Rightarrow> t),
      open_write = (\<lambda>path. None),
      build = (\<lambda>c. Inr \<lparr>service_credentials = c\<rparr>),
      set_text_content = (\<lambda>c. None),
      header_factory = (\<lambda>name v. Inr v),
      as_bytes = (\<lambda>m. Inr (concat (map (\<lambda>(k, v). k @ '': '' @ v @ [CHR 0x0A]) (headers m)) @
                           [CHR 0x0A] @ content m @ [CHR 0x0A])),
      execute_send = (\<lambda>svc raw. Inr [(''id'', ''m1'')]),
      post = (\<lambda>url params hdrs. Inr sample_response),
      str_of_json = (\<lambda>v. [])\<rparr>"

definition empty_world :: world where
  "empty_world = \<lparr>token_file = None, credentials_file = None, trace = []\<rparr>"

section \<open>Escaping and line breaks\<close>

lemma replace_char_Nil: "replace_char x r [] = []"
  by (simp add: replace_char_def)

lemma replace_char_Cons: "replace_char x r (c # s) = (if c = x then r else [c]) @ replace_char x r s"
  by (simp add: replace_char_def)

lemma replace_char_append: "replace_char x r (a @ b) = replace_char x r a @ replace_char x r b"
  by (simp add: replace_char_def)

lemma html_escape_Nil: "html_escape [] = []"
  by (simp add: html_escape_def replace_char_Nil)

lemma html_escape_Cons: "html_escape (c # s) = esc_char c @ html_escape s"
  by (simp add: html_escape_def Let_def replace_char_Cons replace_char_append replace_char_Nil
      esc_char_def)

lemma html_formatted_body_Nil: "html_formatted_body [] = []"
  by (simp add: html_formatted_body_def html_escape_Nil replace_char_Nil)

lemma html_formatted_body_Cons: "html_formatted_body (c # s) = fmt_char c @ html_formatted_body s"
  by (simp add: html_formatted_body_def html_escape_Cons replace_char_append fmt_char_def
      esc_char_def replace_char_Cons replace_char_Nil)

lemma count_br_skip:
  "CHR ''<'' \<notin> set t \<Longrightarrow> count_sub ''<br>'' (t @ rest) = count_sub ''<br>'' rest"
  by (induction t) auto

lemma count_br_fmt_char:
  "count_sub ''<br>'' (fmt_char c @ rest) = (if c = CHR 0x0A then 1 else 0) + count_sub ''<br>'' rest"
proof (cases "c = CHR 0x0A")
  case True
  then show ?thesis by (simp add: fmt_char_def)
next
  case False
  have "CHR ''<'' \<notin> set (esc_char c)" by (simp add: esc_char_def)
  with False show ?thesis by (simp add: fmt_char_def count_br_skip)
qed

lemma count_br_formatted:
  "count_sub ''<br>'' (html_formatted_body body @ rest) =
     count_list body (CHR 0x0A) + count_sub ''<br>'' rest"
  by (induction body)
     (simp_all add: html_formatted_body_Nil html_formatted_body_Cons count_br_fmt_char)

text \<open>
  C2, as the code has it. A body with N line feeds gives a formatted body with exactly N
  markers \<open><br>\<close>; the document that is sent has N + 1 of them, because line 102 puts
  one more \<open><br>\<close> behind the formatted body.
\<close>

theorem html_body_br_count:
  "count_sub ''<br>'' (html_formatted_body body) = count_list body (CHR 0x0A) \<and>
   count_sub ''<br>'' (html_body body) = count_list body (CHR 0x0A) + 1"
proof
  show "count_sub ''<br>'' (html_formatted_body body) = count_list body (CHR 0x0A)"
    using count_br_formatted [of body "[]"] by simp
  have "count_sub ''<br>'' (html_body body) =
        count_sub ''<br>'' (html_formatted_body body @ ''<br></body></html>'')"
    by (simp add: html_body_def)
  also have "\<dots> = count_list body (CHR 0x0A) + 1"
    by (simp add: count_br_formatted)
  finally show "count_sub ''<br>'' (html_body body) = count_list body (CHR 0x0A) + 1" .
qed

text \<open>
  C2 as stated fails: the body \<open>hello\<close> has no line feed, and its document has one
  marker.
\<close>

theorem html_body_br_count_counterexample:
  "count_list ''hello'' (CHR 0x0A) = 0 \<and> count_sub ''<br>'' (html_body ''hello'') = 1"
  by (simp add: html_body_def html_formatted_body_def html_escape_def replace_char_def)

section \<open>The reading side inverts the writing side\<close>





lemma strip_eol_html_body: "strip_eol (html_body body) = html_body body"
  by (simp add: strip_eol_def html_body_def)






lemma escape_no_markup:
  "set (html_escape body) \<inter> {CHR ''<'', CHR ''>'', CHR 0x22, CHR 0x27} = {}"
  by (induction body) (auto simp: html_escape_Nil html_escape_Cons esc_char_def split: if_splits)



















section \<open>The composer\<close>

lemma splitlines_me: "splitlines ''me'' = [''me'']"
  by code_simp

lemma setitem_cases:
  "setitem lib m name v =
     (if 1 < length (splitlines v)
      then Inl (ValueError ''Header values may not contain linefeed or carriage return characters'')
      else (case header_factory lib name v of
              Inl e \<Rightarrow> Inl e
            | Inr h \<Rightarrow> Inr (m\<lparr>headers := headers m @ [(name, h)]\<rparr>)))"
  by (simp add: setitem_def header_store_parse_def split: sum.splits)

lemma build_message_Inr:
  "(build_message lib r s b = Inr m) =
     (set_text_content lib (html_body b) = None \<and>
      length (splitlines r) \<le> 1 \<and> length (splitlines s) \<le> 1 \<and>
      (\<exists>t f u. header_factory lib ''To'' r = Inr t \<and> header_factory lib ''From'' ''me'' = Inr f \<and>
         header_factory lib ''Subject'' s = Inr u \<and>
         m = \<lparr>content = html_body b, subtype = ''html'',
              headers = [(''To'', t), (''From'', f), (''Subject'', u)]\<rparr>))"
  by (auto simp: build_message_def set_content_def setitem_cases splitlines_me EmailMessage_def
      split: option.splits sum.splits if_splits)

lemma build_message_recipient_lines:
  "set_text_content lib (html_body b) = None \<Longrightarrow> 1 < length (splitlines r) \<Longrightarrow>
     build_message lib r s b =
       Inl (ValueError ''Header values may not contain linefeed or carriage return characters'')"
  by (simp add: build_message_def set_content_def setitem_cases)

lemma build_message_subject_lines:
  "set_text_content lib (html_body b) = None \<Longrightarrow> length (splitlines r) \<le> 1 \<Longrightarrow>
   header_factory lib ''To'' r = Inr t \<Longrightarrow> header_factory lib ''From'' ''me'' = Inr f \<Longrightarrow>
   1 < length (splitlines s) \<Longrightarrow>
     build_message lib r s b =
       Inl (ValueError ''Header values may not contain linefeed or carriage return characters'')"
  by (simp add: build_message_def set_content_def setitem_cases splitlines_me)

lemma compose_Inr:
  "(compose lib r s b = Inr payload) =
     (\<exists>m raw. build_message lib r s b = Inr m \<and> as_bytes lib m = Inr raw \<and>
        payload = urlsafe_b64encode raw)"
  by (auto simp: compose_def split: sum.splits)




text \<open>
  C8, as the code has it. The composer is a function of its three arguments and of what
  the message library returns; it touches neither network nor disk. It is not total. It
  produces a payload exactly when the library encodes the document, recipient and
  subject have at most one line each, the header parser accepts the three header values
  and the serialiser returns bytes. For a recipient or a subject of more than one line
  it produces none: the assignment raises \<open>ValueError\<close>, unless an earlier statement has
  raised already. The empty subject has no line and passes.
\<close>

theorem compose_total_iff:
  "((\<exists>payload. compose lib recipient_email subject body = Inr payload) =
      (set_text_content lib (html_body body) = None \<and>
       length (splitlines recipient_email) \<le> 1 \<and> length (splitlines subject) \<le> 1 \<and>
       (\<exists>t f u raw.
          header_factory lib ''To'' recipient_email = Inr t \<and>
          header_factory lib ''From'' ''me'' = Inr f \<and>
          header_factory lib ''Subject'' subject = Inr u \<and>
          as_bytes lib \<lparr>content = html_body body, subtype = ''html'',
                        headers = [(''To'', t), (''From'', f), (''Subject'', u)]\<rparr> = Inr raw))) \<and>
   (1 < length (splitlines recipient_email) \<or> 1 < length (splitlines subject) \<longrightarrow>
      (\<exists>e. compose lib recipient_email subject body = Inl e)) \<and>
   (set_text_content lib (html_body body) = None \<and> 1 < length (splitlines recipient_email) \<longrightarrow>
      compose lib recipient_email subject body =
        Inl (ValueError ''Header values may not contain linefeed or carriage return characters'')) \<and>
   (set_text_content lib (html_body body) = None \<and> length (splitlines recipient_email) \<le> 1 \<and>
    header_factory lib ''To'' recipient_email = Inr t \<and>
    header_factory lib ''From'' ''me'' = Inr f \<and> 1 < length (splitlines subject) \<longrightarrow>
      compose lib recipient_email subject body =
        Inl (ValueError ''Header values may not contain linefeed or carriage return characters'')) \<and>
   length (splitlines []) \<le> 1"
proof -
  have iff: "(\<exists>payload. compose lib recipient_email subject body = Inr payload) =
      (set_text_content lib (html_body body) = None \<and>
       length (splitlines recipient_email) \<le> 1 \<and> length (splitlines subject) \<le> 1 \<and>
       (\<exists>t f u raw.
          header_factory lib ''To'' recipient_email = Inr t \<and>
          header_factory lib ''From'' ''me'' = Inr f \<and>
          header_factory lib ''Subject'' subject = Inr u \<and>
          as_bytes lib \<lparr>content = html_body body, subtype = ''html'',
                        headers = [(''To'', t), (''From'', f), (''Subject'', u)]\<rparr> = Inr raw))"
    by (auto simp: compose_Inr build_message_Inr)
  have lines: "1 < length (splitlines recipient_email) \<or> 1 < length (splitlines subject) \<longrightarrow>
      (\<exists>e. compose lib recipient_email subject body = Inl e)"
  proof
    assume "1 < length (splitlines recipient_email) \<or> 1 < length (splitlines subject)"
    with iff have "\<not> (\<exists>payload. compose lib recipient_email subject body = Inr payload)"
      by auto
    then show "\<exists>e. compose lib recipient_email subject body = Inl e"
      by (cases "compose lib recipient_email subject body") auto
  qed
  have guard: "set_text_content lib (html_body body) = None \<and> 1 < length (splitlines recipient_email) \<longrightarrow>
      compose lib recipient_email subject body =
        Inl (ValueError ''Header values may not contain linefeed or carriage return characters'')"
    by (simp add: compose_def build_message_recipient_lines)
  have guard2: "set_text_content lib (html_body body) = None \<and>
    length (splitlines recipient_email) \<le> 1 \<and>
    header_factory lib ''To'' recipient_email = Inr t \<and>
    header_factory lib ''From'' ''me'' = Inr f \<and> 1 < length (splitlines subject) \<longrightarrow>
      compose lib recipient_email subject body =
        Inl (ValueError ''Header values may not contain linefeed or carriage return characters'')"
    by (simp add: compose_def build_message_subject_lines)
  have "length (splitlines []) \<le> 1"
    by code_simp
  with iff lines guard guard2 show ?thesis by blast
qed

theorem compose_total_iff_witness:
  "1 < length (splitlines (''Hi'' @ [CHR 0x0A] @ ''there'')) \<and>
   compose sample_library (''Hi'' @ [CHR 0x0A] @ ''there'') [] [] =
     Inl (ValueError ''Header values may not contain linefeed or carriage return characters'') \<and>
   compose sample_library ''a@b.c'' (''Hi'' @ [CHR 0x0A] @ ''there'') [] =
     Inl (ValueError ''Header values may not contain linefeed or carriage return characters'') \<and>
   compose sample_library ''a@b.c'' [] [] =
     Inr ''VG86IGFAYi5jCkZyb206IG1lClN1YmplY3Q6IAoKPGh0bWw-PGJvZHk-PGJyPjwvYm9keT48L2h0bWw-Cg==''"
proof -
  have h: "1 < length (splitlines (''Hi'' @ [CHR 0x0A] @ ''there''))"
    by code_simp
  have c: "set_text_content sample_library (html_body []) = None"
    by (simp add: sample_library_def)
  have e: "compose sample_library ''a@b.c'' [] [] =
     Inr ''VG86IGFAYi5jCkZyb206IG1lClN1YmplY3Q6IAoKPGh0bWw-PGJvZHk-PGJyPjwvYm9keT48L2h0bWw-Cg==''"
    by code_simp
  have l: "length (splitlines ''a@b.c'') \<le> 1"
    by code_simp
  have t: "header_factory sample_library ''To'' ''a@b.c'' = Inr ''a@b.c''"
    by (simp add: sample_library_def)
  have f: "header_factory sample_library ''From'' ''me'' = Inr ''me''"
    by (simp add: sample_library_def)
  from compose_total_iff [of sample_library "''Hi'' @ [CHR 0x0A] @ ''there''" "[]" "[]"] h c
  have r1: "compose sample_library (''Hi'' @ [CHR 0x0A] @ ''there'') [] [] =
     Inl (ValueError ''Header values may not contain linefeed or carriage return characters'')"
    by simp
  from compose_total_iff [of sample_library "''a@b.c''" "''Hi'' @ [CHR 0x0A] @ ''there''" "[]"
      "''a@b.c''" "''me''"] h c l t f
  have r2: "compose sample_library ''a@b.c'' (''Hi'' @ [CHR 0x0A] @ ''there'') [] =
     Inl (ValueError ''Header values may not contain linefeed or carriage return characters'')"
    by simp
  from r1 r2 h e show ?thesis by simp
qed

text \<open>
  C8 as stated fails: a subject with an embedded line feed, a control character, is a
  string for which the composer produces no payload.
\<close>

theorem compose_total_counterexample:
  "compose sample_library ''a@b.c'' (''Hi'' @ [CHR 0x0A] @ ''there'') ''x'' =
     Inl (ValueError ''Header values may not contain linefeed or carriage return characters'')"
  by code_simp

section \<open>The enrichment tools\<close>

lemma enrich_person_no_key:
  "\<not> truthy key \<Longrightarrow>
     enrich_person key lib params =
       (Inl (ValueError ''APOLLO_API_KEY environment variable not set.''), [])"
  by (cases key) (simp_all add: enrich_person_def)

lemma enrich_person_key:
  "k \<noteq> [] \<Longrightarrow>
     enrich_person (Some k) lib params =
       (case post lib api_endpoint params
               [(''Content-Type'', ''application/json''), (''Cache-Control'', ''no-cache''),
                (''x-api-key'', k)] of
          Inl e \<Rightarrow> handlers None e
        | Inr r \<Rightarrow> (case handle_response lib r of Inl e \<Rightarrow> handlers (Some r) e | Inr s \<Rightarrow> Inr s),
        [HttpPost api_endpoint params
           [(''Content-Type'', ''application/json''), (''Cache-Control'', ''no-cache''),
            (''x-api-key'', k)]])"
  by (simp add: enrich_person_def Let_def)

lemma handlers_bound: "\<exists>s. handlers (Some r) e = Inr s"
  by (cases e) (simp_all add: handlers_def)

lemma handlers_unbound: "(\<forall>m. e \<noteq> HTTPError m) \<Longrightarrow> \<exists>s. handlers None e = Inr s"
  by (cases e) (simp_all add: handlers_def)

lemma enrich_person_returns:
  assumes "truthy key" and "\<forall>url ps hs m. post lib url ps hs \<noteq> Inl (HTTPError m)"
  shows "\<exists>s. fst (enrich_person key lib params) = Inr s"
proof -
  from assms(1) obtain k where k: "key = Some k" "k \<noteq> []"
    by (cases key) auto
  let ?hs = "[(''Content-Type'', ''application/json''), (''Cache-Control'', ''no-cache''),
              (''x-api-key'', k)]"
  show ?thesis
  proof (cases "post lib api_endpoint params ?hs")
    case (Inl e)
    with assms(2) have "\<forall>m. e \<noteq> HTTPError m" by metis
    from handlers_unbound [OF this] Inl k show ?thesis
      by (simp add: enrich_person_key)
  next
    case (Inr r)
    show ?thesis
    proof (cases "handle_response lib r")
      case (Inl e)
      with handlers_bound [of r e] Inr k show ?thesis
        by (simp add: enrich_person_key)
    next
      case Inr' : (Inr s)
      with Inr k show ?thesis
        by (simp add: enrich_person_key)
    qed
  qed
qed

text \<open>
  C3, as the code has it. While the key is not configured (\<open>None\<close> or empty), each of
  the two tools raises \<open>ValueError\<close> and sends no request: the check of line 128 stands
  before the \<open>try\<close>, and neither tool catches the exception. With the key configured,
  and an HTTP client that raises no \<open>HTTPError\<close> of its own before there is a response,
  each tool returns a string.
\<close>

theorem enrichment_tools_boundary:
  "(\<not> truthy key \<longrightarrow>
      find_email_by_name_and_company key lib first_name last_name company_name =
        (Inl (ValueError ''APOLLO_API_KEY environment variable not set.''), []) \<and>
      find_email_by_linkedin key lib linkedin_url =
        (Inl (ValueError ''APOLLO_API_KEY environment variable not set.''), [])) \<and>
   (truthy key \<and> (\<forall>url ps hs m. post lib url ps hs \<noteq> Inl (HTTPError m)) \<longrightarrow>
      (\<exists>s. fst (find_email_by_name_and_company key lib first_name last_name company_name) = Inr s) \<and>
      (\<exists>s. fst (find_email_by_linkedin key lib linkedin_url) = Inr s))"
  by (simp add: find_email_by_name_and_company_def find_email_by_linkedin_def
      enrich_person_no_key enrich_person_returns)

theorem enrichment_tools_boundary_witness:
  "\<not> truthy (Some []) \<and>
   find_email_by_linkedin (Some []) sample_library ''https://www.linkedin.com/in/x'' =
     (Inl (ValueError ''APOLLO_API_KEY environment variable not set.''), []) \<and>
   truthy (Some ''k1'') \<and>
   fst (find_email_by_name_and_company (Some ''k1'') sample_library ''Ada'' ''Lovelace'' ''Acme'') =
     Inr ''Email found: a@b.com''"
proof -
  have p: "\<forall>url ps hs m. post sample_library url ps hs \<noteq> Inl (HTTPError m)"
    by (simp add: sample_library_def)
  have v: "fst (find_email_by_name_and_company (Some ''k1'') sample_library ''Ada'' ''Lovelace'' ''Acme'') =
     Inr ''Email found: a@b.com''"
    by code_simp
  from enrichment_tools_boundary [of "Some []" sample_library "''Ada''" "''Lovelace''" "''Acme''"
      "''https://www.linkedin.com/in/x''"]
    enrichment_tools_boundary [of "Some ''k1''" sample_library "''Ada''" "''Lovelace''" "''Acme''"
      "''https://www.linkedin.com/in/x''"] p v
  show ?thesis by simp
qed

text \<open>
  C3 as stated fails: without a key the tool does not return a string, it raises.
\<close>

theorem enrichment_tools_boundary_counterexample:
  "fst (find_email_by_linkedin None sample_library ''https://www.linkedin.com/in/x'') =
     Inl (ValueError ''APOLLO_API_KEY environment variable not set.'')"
  by (simp add: find_email_by_linkedin_def enrich_person_def)

lemma raise_for_status_None: "status_code r < 400 \<Longrightarrow> raise_for_status r = None"
  by (simp add: raise_for_status_def)

lemma raise_for_status_Some:
  "400 \<le> status_code r \<Longrightarrow> status_code r < 600 \<Longrightarrow>
     raise_for_status r =
       Some (HTTPError (str_of_nat (status_code r) @
           (if status_code r < 500 then '' Client Error: '' else '' Server Error: '') @
           reason r @ '' for url: '' @ resp_url r))"
  by (simp add: raise_for_status_def)

lemma extract_email_found:
  assumes "map_of data ''person'' = Some (JObj person)"
    and "map_of person ''email'' = Some (JStr email)" and "email \<noteq> []"
  shows "extract_email lib (JObj data) = Inr (''Email found: '' @ email)"
proof -
  from assms(2) have "person \<noteq> []" by auto
  with assms show ?thesis
    by (simp add: extract_email_def format_json_def)
qed

lemma json_truthy_empty: "json_truthy v = (\<not> empty_value v)"
  by (cases v) simp_all

lemma extract_email_absent:
  assumes "no_email data"
  shows "extract_email lib (JObj data) = Inr ''Email not found for the given details.''"
proof (cases "map_of data ''person''")
  case None
  then show ?thesis by (simp add: extract_email_def)
next
  case (Some p)
  show ?thesis
  proof (cases "json_truthy p")
    case False
    with Some show ?thesis by (simp add: extract_email_def)
  next
    case True
    with Some assms obtain person where p: "p = JObj person"
      by (cases p) (simp_all add: no_email_def)
    with Some assms have "case map_of person ''email'' of None \<Rightarrow> True | Some e \<Rightarrow> \<not> json_truthy e"
      by (simp add: no_email_def json_truthy_empty split: option.splits)
    with Some p True show ?thesis
      by (simp add: extract_email_def split: option.splits)
  qed
qed

text \<open>
  C4, as the code has it. The key is configured and the service has answered with the
  response \<open>r\<close>. A status below 400 and an object whose person is an object with a
  non-empty email string give \<open>Email found:\<close> and that email. A status below 400 and an
  object that has no person, or a person that is null, false, zero or empty, or a person
  object whose email is missing, null, false, zero or empty, give the fixed sentence. A
  status from 400 to 599 gives a string with the status code, the reason, the URL and the
  text of the response.
\<close>

theorem enrich_person_outcomes:
  assumes "k \<noteq> []"
    and "post lib api_endpoint params
           [(''Content-Type'', ''application/json''), (''Cache-Control'', ''no-cache''),
            (''x-api-key'', k)] = Inr r"
  shows "(status_code r < 400 \<and> json_result r = Inr (JObj data) \<and>
          map_of data ''person'' = Some (JObj person) \<and>
          map_of person ''email'' = Some (JStr email) \<and> email \<noteq> [] \<longrightarrow>
            fst (enrich_person (Some k) lib params) = Inr (''Email found: '' @ email)) \<and>
         (status_code r < 400 \<and> json_result r = Inr (JObj data) \<and> no_email data \<longrightarrow>
            fst (enrich_person (Some k) lib params) =
              Inr ''Email not found for the given details.'') \<and>
         (400 \<le> status_code r \<and> status_code r < 600 \<longrightarrow>
            fst (enrich_person (Some k) lib params) =
              Inr (''HTTP error occurred: '' @ str_of_nat (status_code r) @
                   (if status_code r < 500 then '' Client Error: '' else '' Server Error: '') @
                   reason r @ '' for url: '' @ resp_url r @ '' - '' @ resp_text r))"
proof (intro conjI impI)
  assume a: "status_code r < 400 \<and> json_result r = Inr (JObj data) \<and>
          map_of data ''person'' = Some (JObj person) \<and>
          map_of person ''email'' = Some (JStr email) \<and> email \<noteq> []"
  then have "extract_email lib (JObj data) = Inr (''Email found: '' @ email)"
    by (simp add: extract_email_found)
  with a assms show "fst (enrich_person (Some k) lib params) = Inr (''Email found: '' @ email)"
    by (simp add: enrich_person_key handle_response_def raise_for_status_None)
next
  assume a: "status_code r < 400 \<and> json_result r = Inr (JObj data) \<and> no_email data"
  then have "extract_email lib (JObj data) = Inr ''Email not found for the given details.''"
    by (simp add: extract_email_absent)
  with a assms show "fst (enrich_person (Some k) lib params) =
      Inr ''Email not found for the given details.''"
    by (simp add: enrich_person_key handle_response_def raise_for_status_None)
next
  assume a: "400 \<le> status_code r \<and> status_code r < 600"
  then have "raise_for_status r =
       Some (HTTPError (str_of_nat (status_code r) @
           (if status_code r < 500 then '' Client Error: '' else '' Server Error: '') @
           reason r @ '' for url: '' @ resp_url r))"
    by (simp add: raise_for_status_Some)
  with assms show "fst (enrich_person (Some k) lib params) =
              Inr (''HTTP error occurred: '' @ str_of_nat (status_code r) @
                   (if status_code r < 500 then '' Client Error: '' else '' Server Error: '') @
                   reason r @ '' for url: '' @ resp_url r @ '' - '' @ resp_text r)"
    by (simp add: enrich_person_key handle_response_def handlers_def)
qed

theorem enrich_person_outcomes_witness:
  "fst (enrich_person (Some ''k1'') sample_library [(''person_linkedin_url'', ''u'')]) =
     Inr ''Email found: a@b.com'' \<and>
   fst (enrich_person (Some ''k1'')
          (sample_library\<lparr>post := (\<lambda>url ps hs. Inr (sample_response\<lparr>json_result :=
             Inr (JObj [(''person'', JObj [(''name'', JStr ''Ada'')])])\<rparr>))\<rparr>)
          [(''person_linkedin_url'', ''u'')]) =
     Inr ''Email not found for the given details.'' \<and>
   fst (enrich_person (Some ''k1'')
          (sample_library\<lparr>post := (\<lambda>url ps hs. Inr \<lparr>status_code = 500,
             reason = ''Internal Server Error'', resp_url = api_endpoint, resp_text = ''boom'',
             json_result = Inr JNull\<rparr>)\<rparr>)
          [(''person_linkedin_url'', ''u'')]) =
     Inr ''HTTP error occurred: 500 Server Error: Internal Server Error for url: https://api.apollo.io/api/v1/people/match - boom''"
proof -
  have k: "''k1'' \<noteq> []" by simp
  let ?hs = "[(''Content-Type'', ''application/json''), (''Cache-Control'', ''no-cache''),
              (''x-api-key'', ''k1'')]"
  let ?ps = "[(''person_linkedin_url'', ''u'')]"
  let ?r2 = "sample_response\<lparr>json_result :=
             Inr (JObj [(''person'', JObj [(''name'', JStr ''Ada'')])])\<rparr>"
  let ?r3 = "\<lparr>status_code = 500, reason = ''Internal Server Error'', resp_url = api_endpoint,
             resp_text = ''boom'', json_result = Inr JNull\<rparr>"
  let ?l2 = "sample_library\<lparr>post := (\<lambda>url ps hs. Inr ?r2)\<rparr>"
  let ?l3 = "sample_library\<lparr>post := (\<lambda>url ps hs. Inr ?r3)\<rparr>"
  have p1: "post sample_library api_endpoint ?ps ?hs = Inr sample_response"
    by (simp add: sample_library_def)
  have p2: "post ?l2 api_endpoint ?ps ?hs = Inr ?r2"
    by simp
  have p3: "post ?l3 api_endpoint ?ps ?hs = Inr ?r3"
    by simp
  have n2: "no_email [(''person'', JObj [(''name'', JStr ''Ada'')])]"
    by (simp add: no_email_def)
  have s3: "str_of_nat 500 = ''500''"
    by code_simp
  from enrich_person_outcomes [OF k p1,
         of "[(''person'', JObj [(''email'', JStr ''a@b.com'')])]" "[(''email'', JStr ''a@b.com'')]"
            "''a@b.com''"]
  have c1: "fst (enrich_person (Some ''k1'') sample_library ?ps) = Inr ''Email found: a@b.com''"
    by (simp add: sample_response_def)
  from enrich_person_outcomes [OF k p2, of "[(''person'', JObj [(''name'', JStr ''Ada'')])]"] n2
  have c2: "fst (enrich_person (Some ''k1'') ?l2 ?ps) = Inr ''Email not found for the given details.''"
    by (simp add: sample_response_def)
  from enrich_person_outcomes [OF k p3] s3
  have c3: "fst (enrich_person (Some ''k1'') ?l3 ?ps) =
     Inr ''HTTP error occurred: 500 Server Error: Internal Server Error for url: https://api.apollo.io/api/v1/people/match - boom''"
    by (simp add: api_endpoint_def)
  from c1 c2 c3 show ?thesis by simp
qed

text \<open>
  C4 as stated fails: the answer \<open>{"person": true}\<close> has no email field, and the result
  is not the fixed sentence but the text of the \<open>TypeError\<close> that \<open>"email" in True\<close>
  raises.
\<close>

theorem enrich_person_outcomes_counterexample:
  "fst (enrich_person (Some ''k1'')
          (sample_library\<lparr>post := (\<lambda>url ps hs. Inr (sample_response\<lparr>json_result :=
             Inr (JObj [(''person'', JBool True)])\<rparr>))\<rparr>)
          [(''person_linkedin_url'', ''u'')]) =
     Inr (''An unexpected error occurred: argument of type '' @ quoted ''bool'' @
          '' is not iterable'')"
  by (simp add: enrich_person_def Let_def sample_library_def sample_response_def
      handle_response_def raise_for_status_def extract_email_def handlers_def)

text \<open>
  C9. With the key configured, each tool sends exactly one request. The request of
  \<open>find_email_by_name_and_company\<close> carries the three fields \<open>first_name\<close>,
  \<open>last_name\<close> and \<open>organization_name\<close> and no other; the request of
  \<open>find_email_by_linkedin\<close> carries the field \<open>person_linkedin_url\<close> and no other.
  Without the key neither tool sends anything.
\<close>

theorem query_shapes:
  "(k \<noteq> [] \<longrightarrow>
      snd (find_email_by_name_and_company (Some k) lib first_name last_name company_name) =
        [HttpPost api_endpoint
           [(''first_name'', first_name), (''last_name'', last_name),
            (''organization_name'', company_name)]
           [(''Content-Type'', ''application/json''), (''Cache-Control'', ''no-cache''),
            (''x-api-key'', k)]] \<and>
      snd (find_email_by_linkedin (Some k) lib linkedin_url) =
        [HttpPost api_endpoint
           [(''person_linkedin_url'', linkedin_url)]
           [(''Content-Type'', ''application/json''), (''Cache-Control'', ''no-cache''),
            (''x-api-key'', k)]]) \<and>
   (\<not> truthy key \<longrightarrow>
      snd (find_email_by_name_and_company key lib first_name last_name company_name) = [] \<and>
      snd (find_email_by_linkedin key lib linkedin_url) = []) \<and>
   set [''first_name'', ''last_name'', ''organization_name''] \<inter> set [''person_linkedin_url''] = {}"
  by (simp add: find_email_by_name_and_company_def find_email_by_linkedin_def
      enrich_person_no_key enrich_person_key)

theorem query_shapes_witness:
  "''k1'' \<noteq> [] \<and>
   snd (find_email_by_name_and_company (Some ''k1'') sample_library ''Ada'' ''Lovelace'' ''Acme'') =
     [HttpPost api_endpoint
        [(''first_name'', ''Ada''), (''last_name'', ''Lovelace''), (''organization_name'', ''Acme'')]
        [(''Content-Type'', ''application/json''), (''Cache-Control'', ''no-cache''),
         (''x-api-key'', ''k1'')]] \<and>
   snd (find_email_by_linkedin (Some ''k1'') sample_library ''u'') =
     [HttpPost api_endpoint
        [(''person_linkedin_url'', ''u'')]
        [(''Content-Type'', ''application/json''), (''Cache-Control'', ''no-cache''),
         (''x-api-key'', ''k1'')]] \<and>
   \<not> truthy None \<and>
   snd (find_email_by_linkedin None sample_library ''u'') = []"
  using query_shapes [of "''k1''" sample_library "''Ada''" "''Lovelace''" "''Acme''" "''u''" None]
  by simp

section \<open>The key is a snapshot\<close>

lemma perform_keeps_key: "APOLLO_API_KEY (fst (perform lib p a)) = APOLLO_API_KEY p"
  by (cases a) simp_all

lemma after_keeps_key: "APOLLO_API_KEY (after lib p acts) = APOLLO_API_KEY p"
  by (induction acts arbitrary: p) (simp_all add: perform_keeps_key)

lemma after_append: "after lib p (xs @ ys) = after lib (after lib p xs) ys"
  by (induction xs arbitrary: p) simp_all

lemma run_append: "run lib p (xs @ ys) = run lib p xs @ run lib (after lib p xs) ys"
  by (induction xs arbitrary: p) (simp_all split: prod.splits)

lemma import_module_key:
  "APOLLO_API_KEY (import_module dotenv env0) = (dotenv ++ env0) ''APOLLO_API_KEY''"
  by (simp add: import_module_def load_dotenv_def Let_def)

lemma tools_no_key:
  assumes "\<not> truthy (APOLLO_API_KEY p)"
  shows "run lib p [FindByLinkedin u, FindByNameAndCompany f l c] =
           [Some (Inl (ValueError ''APOLLO_API_KEY environment variable not set.''), []),
            Some (Inl (ValueError ''APOLLO_API_KEY environment variable not set.''), [])]"
  using assms
  by (simp add: find_email_by_name_and_company_def find_email_by_linkedin_def
      enrich_person_no_key)

lemma tools_key:
  assumes "APOLLO_API_KEY p = Some k" and "k \<noteq> []"
  shows "\<exists>res1 res2.
           run lib p [FindByLinkedin u, FindByNameAndCompany f l c] =
             [Some (res1,
                [HttpPost api_endpoint [(''person_linkedin_url'', u)]
                   [(''Content-Type'', ''application/json''), (''Cache-Control'', ''no-cache''),
                    (''x-api-key'', k)]]),
              Some (res2,
                [HttpPost api_endpoint
                   [(''first_name'', f), (''last_name'', l), (''organization_name'', c)]
                   [(''Content-Type'', ''application/json''), (''Cache-Control'', ''no-cache''),
                    (''x-api-key'', k)]])]"
  using assms
  by (simp add: find_email_by_name_and_company_def find_email_by_linkedin_def
      enrich_person_key)

text \<open>
  C10. The global holds what the environment (with the variables of \<open>.env\<close> added)
  gave for \<open>APOLLO_API_KEY\<close> when the module was loaded, and no later action changes
  it. When that value was absent or empty: after any history, and after the variable has
  then been set to any value, both tools still raise the \<open>ValueError\<close> of line 129 and
  send nothing. When that value was the non-empty key \<open>k\<close>: after any history, and after
  the variable has then been unset, both tools still send their request with \<open>k\<close> in
  the header \<open>x-api-key\<close>.
\<close>

theorem api_key_snapshot:
  "APOLLO_API_KEY (import_module dotenv env0) = (dotenv ++ env0) ''APOLLO_API_KEY'' \<and>
   APOLLO_API_KEY (after lib (import_module dotenv env0) acts) =
     (dotenv ++ env0) ''APOLLO_API_KEY'' \<and>
   (\<not> truthy ((dotenv ++ env0) ''APOLLO_API_KEY'') \<longrightarrow>
      environ (after lib (import_module dotenv env0) (acts @ [SetEnv ''APOLLO_API_KEY'' v]))
        ''APOLLO_API_KEY'' = Some v \<and>
      run lib (import_module dotenv env0)
        (acts @ [SetEnv ''APOLLO_API_KEY'' v, FindByLinkedin u, FindByNameAndCompany f l c]) =
      run lib (import_module dotenv env0) acts @
        [None,
         Some (Inl (ValueError ''APOLLO_API_KEY environment variable not set.''), []),
         Some (Inl (ValueError ''APOLLO_API_KEY environment variable not set.''), [])]) \<and>
   ((dotenv ++ env0) ''APOLLO_API_KEY'' = Some k \<and> k \<noteq> [] \<longrightarrow>
      environ (after lib (import_module dotenv env0) (acts @ [UnsetEnv ''APOLLO_API_KEY'']))
        ''APOLLO_API_KEY'' = None \<and>
      (\<exists>res1 res2.
         run lib (import_module dotenv env0)
           (acts @ [UnsetEnv ''APOLLO_API_KEY'', FindByLinkedin u, FindByNameAndCompany f l c]) =
         run lib (import_module dotenv env0) acts @
           [None,
            Some (res1,
              [HttpPost api_endpoint [(''person_linkedin_url'', u)]
                 [(''Content-Type'', ''application/json''), (''Cache-Control'', ''no-cache''),
                  (''x-api-key'', k)]]),
            Some (res2,
              [HttpPost api_endpoint
                 [(''first_name'', f), (''last_name'', l), (''organization_name'', c)]
                 [(''Content-Type'', ''application/json''), (''Cache-Control'', ''no-cache''),
                  (''x-api-key'', k)]])]))"
proof (intro conjI impI)
  let ?p0 = "import_module dotenv env0"
  let ?key = "(dotenv ++ env0) ''APOLLO_API_KEY''"
  show "APOLLO_API_KEY ?p0 = ?key"
    by (rule import_module_key)
  show k0: "APOLLO_API_KEY (after lib ?p0 acts) = ?key"
    by (simp add: after_keeps_key import_module_key)
  {
    assume no: "\<not> truthy ?key"
    let ?q = "after lib ?p0 (acts @ [SetEnv ''APOLLO_API_KEY'' v])"
    show "environ ?q ''APOLLO_API_KEY'' = Some v"
      by (simp add: after_append)
    have "APOLLO_API_KEY ?q = ?key"
      by (simp add: after_keeps_key import_module_key)
    with no have nq: "\<not> truthy (APOLLO_API_KEY ?q)" by simp
    have s1: "acts @ [SetEnv ''APOLLO_API_KEY'' v, FindByLinkedin u, FindByNameAndCompany f l c] =
        (acts @ [SetEnv ''APOLLO_API_KEY'' v]) @ [FindByLinkedin u, FindByNameAndCompany f l c]"
      by simp
    have s2: "run lib ?p0 (acts @ [SetEnv ''APOLLO_API_KEY'' v]) = run lib ?p0 acts @ [None]"
      by (simp add: run_append)
    show "run lib ?p0
        (acts @ [SetEnv ''APOLLO_API_KEY'' v, FindByLinkedin u, FindByNameAndCompany f l c]) =
      run lib ?p0 acts @
        [None,
         Some (Inl (ValueError ''APOLLO_API_KEY environment variable not set.''), []),
         Some (Inl (ValueError ''APOLLO_API_KEY environment variable not set.''), [])]"
      by (simp only: s1 run_append [of lib ?p0 "acts @ [SetEnv ''APOLLO_API_KEY'' v]"] s2
          tools_no_key [OF nq]) simp
  }
  {
    assume yes: "?key = Some k \<and> k \<noteq> []"
    let ?q = "after lib ?p0 (acts @ [UnsetEnv ''APOLLO_API_KEY''])"
    show "environ ?q ''APOLLO_API_KEY'' = None"
      by (simp add: after_append)
    have kq: "APOLLO_API_KEY ?q = Some k"
      using yes by (simp add: after_keeps_key import_module_key)
    from tools_key [OF kq, of lib u f l c] yes obtain res1 res2 where
      t: "run lib ?q [FindByLinkedin u, FindByNameAndCompany f l c] =
             [Some (res1,
                [HttpPost api_endpoint [(''person_linkedin_url'', u)]
                   [(''Content-Type'', ''application/json''), (''Cache-Control'', ''no-cache''),
                    (''x-api-key'', k)]]),
              Some (res2,
                [HttpPost api_endpoint
                   [(''first_name'', f), (''last_name'', l), (''organization_name'', c)]
                   [(''Content-Type'', ''application/json''), (''Cache-Control'', ''no-cache''),
                    (''x-api-key'', k)]])]"
      by blast
    have s1: "acts @ [UnsetEnv ''APOLLO_API_KEY'', FindByLinkedin u, FindByNameAndCompany f l c] =
        (acts @ [UnsetEnv ''APOLLO_API_KEY'']) @ [FindByLinkedin u, FindByNameAndCompany f l c]"
      by simp
    have s2: "run lib ?p0 (acts @ [UnsetEnv ''APOLLO_API_KEY'']) = run lib ?p0 acts @ [None]"
      by (simp add: run_append)
    have "run lib ?p0
          (acts @ [UnsetEnv ''APOLLO_API_KEY'', FindByLinkedin u, FindByNameAndCompany f l c]) =
        run lib ?p0 acts @
           [None,
            Some (res1,
              [HttpPost api_endpoint [(''person_linkedin_url'', u)]
                 [(''Content-Type'', ''application/json''), (''Cache-Control'', ''no-cache''),
                  (''x-api-key'', k)]]),
            Some (res2,
              [HttpPost api_endpoint
                 [(''first_name'', f), (''last_name'', l), (''organization_name'', c)]
                 [(''Content-Type'', ''application/json''), (''Cache-Control'', ''no-cache''),
                  (''x-api-key'', k)]])]"
      by (simp only: s1 run_append [of lib ?p0 "acts @ [UnsetEnv ''APOLLO_API_KEY'']"] s2 t) simp
    then show "\<exists>res1 res2.
         run lib ?p0
           (acts @ [UnsetEnv ''APOLLO_API_KEY'', FindByLinkedin u, FindByNameAndCompany f l c]) =
         run lib ?p0 acts @
           [None,
            Some (res1,
              [HttpPost api_endpoint [(''person_linkedin_url'', u)]
                 [(''Content-Type'', ''application/json''), (''Cache-Control'', ''no-cache''),
                  (''x-api-key'', k)]]),
            Some (res2,
              [HttpPost api_endpoint
                 [(''first_name'', f), (''last_name'', l), (''organization_name'', c)]
                 [(''Content-Type'', ''application/json''), (''Cache-Control'', ''no-cache''),
                  (''x-api-key'', k)]])]"
      by blast
  }
qed

theorem api_key_snapshot_witness:
  "\<not> truthy ((Map.empty ++ Map.empty) ''APOLLO_API_KEY'') \<and>
   run sample_library (import_module Map.empty Map.empty)
     [FindByLinkedin ''u0'', SetEnv ''APOLLO_API_KEY'' ''k1'', FindByLinkedin ''u'',
      FindByNameAndCompany ''a'' ''b'' ''c''] =
     [Some (Inl (ValueError ''APOLLO_API_KEY environment variable not set.''), []),
      None,
      Some (Inl (ValueError ''APOLLO_API_KEY environment variable not set.''), []),
      Some (Inl (ValueError ''APOLLO_API_KEY environment variable not set.''), [])] \<and>
   (Map.empty ++ [''APOLLO_API_KEY'' \<mapsto> ''k1'']) ''APOLLO_API_KEY'' = Some ''k1'' \<and>
   run sample_library (import_module Map.empty [''APOLLO_API_KEY'' \<mapsto> ''k1''])
     [UnsetEnv ''APOLLO_API_KEY'', FindByLinkedin ''u'', FindByNameAndCompany ''a'' ''b'' ''c''] =
     [None,
      Some (Inr ''Email found: a@b.com'',
            [HttpPost api_endpoint [(''person_linkedin_url'', ''u'')]
               [(''Content-Type'', ''application/json''), (''Cache-Control'', ''no-cache''),
                (''x-api-key'', ''k1'')]]),
      Some (Inr ''Email found: a@b.com'',
            [HttpPost api_endpoint
               [(''first_name'', ''a''), (''last_name'', ''b''), (''organization_name'', ''c'')]
               [(''Content-Type'', ''application/json''), (''Cache-Control'', ''no-cache''),
                (''x-api-key'', ''k1'')]])]"
proof -
  have n: "\<not> truthy ((Map.empty ++ Map.empty) ''APOLLO_API_KEY'')"
    by simp
  have r0: "run sample_library (import_module Map.empty Map.empty) [FindByLinkedin ''u0''] =
      [Some (Inl (ValueError ''APOLLO_API_KEY environment variable not set.''), [])]"
    by code_simp
  have y: "(Map.empty ++ [''APOLLO_API_KEY'' \<mapsto> ''k1'']) ''APOLLO_API_KEY'' = Some ''k1'' \<and> ''k1'' \<noteq> []"
    by simp
  have f1: "fst (find_email_by_linkedin (Some ''k1'') sample_library ''u'') = Inr ''Email found: a@b.com''"
    by code_simp
  have f2: "fst (find_email_by_name_and_company (Some ''k1'') sample_library ''a'' ''b'' ''c'') =
      Inr ''Email found: a@b.com''"
    by code_simp
  from api_key_snapshot [of Map.empty Map.empty sample_library "[FindByLinkedin ''u0'']"
      "''k1''" "''u''" "''a''" "''b''" "''c''"] n r0
  have a: "run sample_library (import_module Map.empty Map.empty)
     [FindByLinkedin ''u0'', SetEnv ''APOLLO_API_KEY'' ''k1'', FindByLinkedin ''u'',
      FindByNameAndCompany ''a'' ''b'' ''c''] =
     [Some (Inl (ValueError ''APOLLO_API_KEY environment variable not set.''), []),
      None,
      Some (Inl (ValueError ''APOLLO_API_KEY environment variable not set.''), []),
      Some (Inl (ValueError ''APOLLO_API_KEY environment variable not set.''), [])]"
    by (simp add: import_module_def load_dotenv_def Let_def find_email_by_linkedin_def
        find_email_by_name_and_company_def enrich_person_def)
  from api_key_snapshot [of Map.empty "[''APOLLO_API_KEY'' \<mapsto> ''k1'']" sample_library "[]"
      _ "''u''" "''a''" "''b''" "''c''" "''k1''"] y
  obtain res1 res2 where
    b: "run sample_library (import_module Map.empty [''APOLLO_API_KEY'' \<mapsto> ''k1''])
         [UnsetEnv ''APOLLO_API_KEY'', FindByLinkedin ''u'', FindByNameAndCompany ''a'' ''b'' ''c''] =
       [None,
        Some (res1,
              [HttpPost api_endpoint [(''person_linkedin_url'', ''u'')]
               [(''Content-Type'', ''application/json''), (''Cache-Control'', ''no-cache''),
                (''x-api-key'', ''k1'')]]),
        Some (res2,
              [HttpPost api_endpoint
               [(''first_name'', ''a''), (''last_name'', ''b''), (''organization_name'', ''c'')]
               [(''Content-Type'', ''application/json''), (''Cache-Control'', ''no-cache''),
                (''x-api-key'', ''k1'')]])]"
    by auto
  have key: "APOLLO_API_KEY (import_module Map.empty [''APOLLO_API_KEY'' \<mapsto> ''k1'']) = Some ''k1''"
    by (simp add: import_module_key)
  from b f1 f2 key have "res1 = Inr ''Email found: a@b.com'' \<and> res2 = Inr ''Email found: a@b.com''"
    by (simp add: import_module_def load_dotenv_def Let_def)
  with a b n y show ?thesis by simp
qed

section \<open>The mail session\<close>

lemma load_token_absent:
  "token_file w = None \<Longrightarrow> load_token lib w = (Inr None, emit (PathExists TOKEN_PATH) w)"
  by (simp add: load_token_def emit_def Let_def)

lemma load_token_present:
  "token_file w = Some txt \<Longrightarrow> from_authorized_user_file lib txt = Inr c \<Longrightarrow>
     load_token lib w = (Inr (Some c), emit ReadTokenFile (emit (PathExists TOKEN_PATH) w))"
  by (simp add: load_token_def emit_def Let_def)

lemma acquire_no_secret:
  "credentials_file w = None \<Longrightarrow>
     acquire lib w =
       (Inl (FileNotFoundError
          (''Error: '' @ quoted ''credentials.json'' @ '' not found. '' @
           ''Please ensure the credentials file is in the same directory as the server script.'')),
        emit (PathExists CREDENTIALS_PATH) w)"
  by (simp add: acquire_def emit_def Let_def)

lemma login_refresh_trace:
  assumes "expired c" "truthy (refresh_token c)"
  shows "\<exists>evs. trace (snd (login lib (Some c) w)) = trace w @ evs \<and>
           RunLocalServer \<notin> set evs \<and> ReadClientSecrets \<notin> set evs"
proof (cases "refresh lib c")
  case (Inl e)
  with assms have "trace (snd (login lib (Some c) w)) = trace w @ [RefreshRequest]"
    by (simp add: login_def renew_def emit_def)
  then show ?thesis by simp
next
  case (Inr c')
  show ?thesis
  proof (cases "open_write lib TOKEN_PATH")
    case (Some e)
    with Inr assms have "trace (snd (login lib (Some c) w)) = trace w @ [RefreshRequest]"
      by (simp add: login_def renew_def save_token_def emit_def)
    then show ?thesis by simp
  next
    case None
    with Inr assms have "trace (snd (login lib (Some c) w)) =
        trace w @ [RefreshRequest, WriteTokenFile (to_json lib c'), BuildService]"
      by (simp add: login_def renew_def save_token_def build_service_def emit_def)
    then show ?thesis by simp
  qed
qed

text \<open>
  C6. The token file exists and holds a credential that is expired and carries a refresh
  token. Then, whether or not the refresh succeeds, obtaining the session neither reads
  the client secrets nor runs the consent flow. When the refresh succeeds and the token
  file can be written, the session is built from the refreshed credential after exactly
  these steps: the existence check, the read, the refresh, the write, the build.
\<close>

theorem refresh_skips_consent:
  assumes "token_file w = Some txt" and "from_authorized_user_file lib txt = Inr c"
    and "expired c" and "truthy (refresh_token c)"
  shows "(\<exists>evs. trace (snd (get_gmail_service lib w)) = trace w @ evs \<and>
            RunLocalServer \<notin> set evs \<and> ReadClientSecrets \<notin> set evs) \<and>
         (\<not> valid c \<and> refresh lib c = Inr c' \<and> open_write lib TOKEN_PATH = None \<longrightarrow>
            get_gmail_service lib w =
              (build lib c',
               w\<lparr>token_file := Some (to_json lib c'),
                 trace := trace w @ [PathExists TOKEN_PATH, ReadTokenFile, RefreshRequest,
                                     WriteTokenFile (to_json lib c'), BuildService]\<rparr>))"
proof
  let ?w1 = "emit ReadTokenFile (emit (PathExists TOKEN_PATH) w)"
  have lt: "load_token lib w = (Inr (Some c), ?w1)"
    using assms(1,2) by (rule load_token_present)
  show "\<exists>evs. trace (snd (get_gmail_service lib w)) = trace w @ evs \<and>
            RunLocalServer \<notin> set evs \<and> ReadClientSecrets \<notin> set evs"
  proof (cases "valid c")
    case True
    with lt have "trace (snd (get_gmail_service lib w)) =
        trace w @ [PathExists TOKEN_PATH, ReadTokenFile, BuildService]"
      by (simp add: get_gmail_service_def build_service_def emit_def)
    then show ?thesis by simp
  next
    case False
    from login_refresh_trace [OF assms(3,4), of lib ?w1] obtain evs where
      evs: "trace (snd (login lib (Some c) ?w1)) = trace ?w1 @ evs"
        "RunLocalServer \<notin> set evs" "ReadClientSecrets \<notin> set evs"
      by blast
    from False lt evs(1) have "trace (snd (get_gmail_service lib w)) =
        trace w @ ([PathExists TOKEN_PATH, ReadTokenFile] @ evs)"
      by (simp add: get_gmail_service_def emit_def)
    with evs(2,3) show ?thesis by auto
  qed
  show "\<not> valid c \<and> refresh lib c = Inr c' \<and> open_write lib TOKEN_PATH = None \<longrightarrow>
            get_gmail_service lib w =
              (build lib c',
               w\<lparr>token_file := Some (to_json lib c'),
                 trace := trace w @ [PathExists TOKEN_PATH, ReadTokenFile, RefreshRequest,
                                     WriteTokenFile (to_json lib c'), BuildService]\<rparr>)"
    using lt assms(3,4)
    by (simp add: get_gmail_service_def login_def renew_def save_token_def build_service_def
        emit_def)
qed

theorem refresh_skips_consent_witness:
  "token_file (empty_world\<lparr>token_file := Some ''tok''\<rparr>) = Some ''tok'' \<and>
   from_authorized_user_file sample_library ''tok'' =
     Inr \<lparr>valid = False, expired = True, refresh_token = Some ''tok''\<rparr> \<and>
   get_gmail_service sample_library (empty_world\<lparr>token_file := Some ''tok''\<rparr>) =
     (Inr \<lparr>service_credentials = \<lparr>valid = True, expired = False, refresh_token = Some ''tok''\<rparr>\<rparr>,
      \<lparr>token_file = Some ''tok'', credentials_file = None,
       trace = [PathExists TOKEN_PATH, ReadTokenFile, RefreshRequest, WriteTokenFile ''tok'',
                BuildService]\<rparr>)"
proof -
  let ?w = "empty_world\<lparr>token_file := Some ''tok''\<rparr>"
  let ?c = "\<lparr>valid = False, expired = True, refresh_token = Some ''tok''\<rparr>"
  have a: "token_file ?w = Some ''tok''" by simp
  have b: "from_authorized_user_file sample_library ''tok'' = Inr ?c"
    by (simp add: sample_library_def)
  have c: "expired ?c" by simp
  have d: "truthy (refresh_token ?c)" by simp
  from refresh_skips_consent [OF a b c d,
      of "\<lparr>valid = True, expired = False, refresh_token = Some ''tok''\<rparr>"] a b
  show ?thesis
    by (simp add: sample_library_def empty_world_def)
qed

text \<open>
  C7. With neither a token file nor a client-secret file, obtaining the session raises
  \<open>FileNotFoundError\<close> with the message of lines 76 and 77, after two existence checks
  and nothing else: no request has gone out.
\<close>

theorem missing_client_secret:
  assumes "token_file w = None" and "credentials_file w = None"
  shows "get_gmail_service lib w =
           (Inl (FileNotFoundError
              (''Error: '' @ quoted ''credentials.json'' @ '' not found. '' @
               ''Please ensure the credentials file is in the same directory as the server script.'')),
            w\<lparr>trace := trace w @ [PathExists TOKEN_PATH, PathExists CREDENTIALS_PATH]\<rparr>) \<and>
         \<not> network_io (PathExists TOKEN_PATH) \<and> \<not> network_io (PathExists CREDENTIALS_PATH)"
proof -
  have "credentials_file (emit (PathExists TOKEN_PATH) w) = None"
    using assms(2) by (simp add: emit_def)
  from acquire_no_secret [OF this, of lib] load_token_absent [OF assms(1), of lib]
  show ?thesis
    by (simp add: get_gmail_service_def login_def renew_def emit_def)
qed

theorem missing_client_secret_witness:
  "token_file empty_world = None \<and> credentials_file empty_world = None \<and>
   get_gmail_service sample_library empty_world =
     (Inl (FileNotFoundError
        (''Error: '' @ quoted ''credentials.json'' @ '' not found. '' @
         ''Please ensure the credentials file is in the same directory as the server script.'')),
      \<lparr>token_file = None, credentials_file = None,
       trace = [PathExists TOKEN_PATH, PathExists CREDENTIALS_PATH]\<rparr>)"
proof -
  have a: "token_file empty_world = None" by (simp add: empty_world_def)
  have b: "credentials_file empty_world = None" by (simp add: empty_world_def)
  from missing_client_secret [OF a b, of sample_library] a b show ?thesis
    by (simp add: empty_world_def)
qed

section \<open>Sending\<close>

lemma send_email_handlers:
  "send_email_try lib w r s b = (Inl e, w') \<Longrightarrow>
     fst (send_email lib w r s b) =
       Inr (case e of HttpError m \<Rightarrow> ''Failed to send email. Error: '' @ m
            | _ \<Rightarrow> ''An unexpected error occurred: '' @ exn_str e)"
  by (cases e) (simp_all add: send_email_def)

lemma send_email_passes:
  "send_email_try lib w r s b = (Inr msg, w') \<Longrightarrow> fst (send_email lib w r s b) = Inr msg"
  by (simp add: send_email_def)

lemma send_email_returns: "\<exists>msg. fst (send_email lib w r s b) = Inr msg"
proof (cases "send_email_try lib w r s b")
  case (Pair res w')
  then show ?thesis
    by (cases res) (simp_all add: send_email_handlers send_email_passes)
qed

text \<open>
  C5. \<open>send_email\<close> always returns a string. When the session is obtained, the message
  composed and the provider answers with an identifier, the string names the recipient
  and the identifier. When one of the three steps raises, obtaining the session,
  composing, or the provider call, the string is \<open>Failed to send email. Error:\<close> with
  the text of the error for an \<open>HttpError\<close>, and \<open>An unexpected error occurred:\<close> with
  the text of the exception for any other; so it is when the answer of the provider has
  no identifier.
\<close>

theorem send_email_outcomes:
  "(\<exists>msg. fst (send_email lib w recipient_email subject body) = Inr msg) \<and>
   (get_gmail_service lib w = (Inr svc, w1) \<and>
    compose lib recipient_email subject body = Inr payload \<and>
    execute_send lib svc payload = Inr send_message \<and>
    map_of send_message ''id'' = Some msg_id \<longrightarrow>
      fst (send_email lib w recipient_email subject body) =
        Inr (''Successfully sent email to '' @ recipient_email @
             '' with Message ID: '' @ msg_id)) \<and>
   (get_gmail_service lib w = (Inr svc, w1) \<and>
    compose lib recipient_email subject body = Inr payload \<and>
    execute_send lib svc payload = Inr send_message \<and>
    map_of send_message ''id'' = None \<longrightarrow>
      fst (send_email lib w recipient_email subject body) =
        Inr (''An unexpected error occurred: '' @ quoted ''id'')) \<and>
   (get_gmail_service lib w = (Inr svc, w1) \<and>
    compose lib recipient_email subject body = Inr payload \<and>
    execute_send lib svc payload = Inl e \<longrightarrow>
      fst (send_email lib w recipient_email subject body) =
        Inr (case e of HttpError m \<Rightarrow> ''Failed to send email. Error: '' @ m
             | _ \<Rightarrow> ''An unexpected error occurred: '' @ exn_str e)) \<and>
   (get_gmail_service lib w = (Inr svc, w1) \<and>
    compose lib recipient_email subject body = Inl e \<longrightarrow>
      fst (send_email lib w recipient_email subject body) =
        Inr (case e of HttpError m \<Rightarrow> ''Failed to send email. Error: '' @ m
             | _ \<Rightarrow> ''An unexpected error occurred: '' @ exn_str e)) \<and>
   (get_gmail_service lib w = (Inl e, w1) \<longrightarrow>
      fst (send_email lib w recipient_email subject body) =
        Inr (case e of HttpError m \<Rightarrow> ''Failed to send email. Error: '' @ m
             | _ \<Rightarrow> ''An unexpected error occurred: '' @ exn_str e))"
proof (intro conjI impI)
  show "\<exists>msg. fst (send_email lib w recipient_email subject body) = Inr msg"
    by (rule send_email_returns)
next
  assume "get_gmail_service lib w = (Inr svc, w1) \<and>
    compose lib recipient_email subject body = Inr payload \<and>
    execute_send lib svc payload = Inr send_message \<and>
    map_of send_message ''id'' = Some msg_id"
  then show "fst (send_email lib w recipient_email subject body) =
        Inr (''Successfully sent email to '' @ recipient_email @
             '' with Message ID: '' @ msg_id)"
    by (simp add: send_email_def send_email_try_def)
next
  assume "get_gmail_service lib w = (Inr svc, w1) \<and>
    compose lib recipient_email subject body = Inr payload \<and>
    execute_send lib svc payload = Inr send_message \<and>
    map_of send_message ''id'' = None"
  then show "fst (send_email lib w recipient_email subject body) =
        Inr (''An unexpected error occurred: '' @ quoted ''id'')"
    by (simp add: send_email_def send_email_try_def quoted_def)
next
  assume "get_gmail_service lib w = (Inr svc, w1) \<and>
    compose lib recipient_email subject body = Inr payload \<and>
    execute_send lib svc payload = Inl e"
  then have "send_email_try lib w recipient_email subject body =
      (Inl e, emit (SendRequest payload) w1)"
    by (simp add: send_email_try_def)
  then show "fst (send_email lib w recipient_email subject body) =
        Inr (case e of HttpError m \<Rightarrow> ''Failed to send email. Error: '' @ m
             | _ \<Rightarrow> ''An unexpected error occurred: '' @ exn_str e)"
    by (rule send_email_handlers)
next
  assume "get_gmail_service lib w = (Inr svc, w1) \<and>
    compose lib recipient_email subject body = Inl e"
  then have "send_email_try lib w recipient_email subject body = (Inl e, w1)"
    by (simp add: send_email_try_def)
  then show "fst (send_email lib w recipient_email subject body) =
        Inr (case e of HttpError m \<Rightarrow> ''Failed to send email. Error: '' @ m
             | _ \<Rightarrow> ''An unexpected error occurred: '' @ exn_str e)"
    by (rule send_email_handlers)
next
  assume "get_gmail_service lib w = (Inl e, w1)"
  then have "send_email_try lib w recipient_email subject body = (Inl e, w1)"
    by (simp add: send_email_try_def)
  then show "fst (send_email lib w recipient_email subject body) =
        Inr (case e of HttpError m \<Rightarrow> ''Failed to send email. Error: '' @ m
             | _ \<Rightarrow> ''An unexpected error occurred: '' @ exn_str e)"
    by (rule send_email_handlers)
qed

theorem send_email_outcomes_witness:
  "fst (send_email sample_library (empty_world\<lparr>token_file := Some ''tok''\<rparr>)
         ''a@b.c'' ''Hi'' ''x<y'') =
     Inr ''Successfully sent email to a@b.c with Message ID: m1'' \<and>
   fst (send_email (sample_library\<lparr>execute_send := (\<lambda>svc raw. Inr [(''threadId'', ''t1'')])\<rparr>)
         (empty_world\<lparr>token_file := Some ''tok''\<rparr>) ''a@b.c'' ''Hi'' ''x<y'') =
     Inr (''An unexpected error occurred: '' @ quoted ''id'') \<and>
   fst (send_email (sample_library\<lparr>execute_send := (\<lambda>svc raw. Inl (HttpError ''quota''))\<rparr>)
         (empty_world\<lparr>token_file := Some ''tok''\<rparr>) ''a@b.c'' ''Hi'' ''x<y'') =
     Inr ''Failed to send email. Error: quota'' \<and>
   fst (send_email sample_library (empty_world\<lparr>token_file := Some ''tok''\<rparr>)
         ''a@b.c'' (''Hi'' @ [CHR 0x0A] @ ''there'') ''x<y'') =
     Inr ''An unexpected error occurred: Header values may not contain linefeed or carriage return characters'' \<and>
   fst (send_email sample_library empty_world ''a@b.c'' ''Hi'' ''x<y'') =
     Inr (''An unexpected error occurred: Error: '' @ quoted ''credentials.json'' @ '' not found. '' @
          ''Please ensure the credentials file is in the same directory as the server script.'')"
proof -
  let ?w = "empty_world\<lparr>token_file := Some ''tok''\<rparr>"
  let ?svc = "\<lparr>service_credentials = \<lparr>valid = True, expired = False, refresh_token = Some ''tok''\<rparr>\<rparr>"
  let ?w1 = "\<lparr>token_file = Some ''tok'', credentials_file = None,
       trace = [PathExists TOKEN_PATH, ReadTokenFile, RefreshRequest, WriteTokenFile ''tok'',
                BuildService]\<rparr>"
  let ?wn = "\<lparr>token_file = None, credentials_file = None,
       trace = [PathExists TOKEN_PATH, PathExists CREDENTIALS_PATH]\<rparr>"
  let ?p = "''VG86IGFAYi5jCkZyb206IG1lClN1YmplY3Q6IEhpCgo8aHRtbD48Ym9keT54Jmx0O3k8YnI-PC9ib2R5PjwvaHRtbD4K''"
  let ?l2 = "sample_library\<lparr>execute_send := (\<lambda>svc raw. Inr [(''threadId'', ''t1'')])\<rparr>"
  let ?l3 = "sample_library\<lparr>execute_send := (\<lambda>svc raw. Inl (HttpError ''quota''))\<rparr>"
  let ?ve = "ValueError ''Header values may not contain linefeed or carriage return characters''"
  let ?fe = "FileNotFoundError (''Error: '' @ quoted ''credentials.json'' @ '' not found. '' @
          ''Please ensure the credentials file is in the same directory as the server script.'')"
  have g: "get_gmail_service sample_library ?w = (Inr ?svc, ?w1)"
    by code_simp
  have g2: "get_gmail_service ?l2 ?w = (Inr ?svc, ?w1)"
    by code_simp
  have g3: "get_gmail_service ?l3 ?w = (Inr ?svc, ?w1)"
    by code_simp
  have g0: "get_gmail_service sample_library empty_world = (Inl ?fe, ?wn)"
    by code_simp
  have c: "compose sample_library ''a@b.c'' ''Hi'' ''x<y'' = Inr ?p"
    by code_simp
  have c2: "compose ?l2 ''a@b.c'' ''Hi'' ''x<y'' = Inr ?p"
    by code_simp
  have c3: "compose ?l3 ''a@b.c'' ''Hi'' ''x<y'' = Inr ?p"
    by code_simp
  have c4: "compose sample_library ''a@b.c'' (''Hi'' @ [CHR 0x0A] @ ''there'') ''x<y'' = Inl ?ve"
    by code_simp
  have x: "execute_send sample_library ?svc ?p = Inr [(''id'', ''m1'')]"
    by (simp add: sample_library_def)
  have x2: "execute_send ?l2 ?svc ?p = Inr [(''threadId'', ''t1'')]"
    by simp
  have x3: "execute_send ?l3 ?svc ?p = Inl (HttpError ''quota'')"
    by simp
  from send_email_outcomes [of sample_library ?w "''a@b.c''" "''Hi''" "''x<y''" ?svc ?w1 ?p
      "[(''id'', ''m1'')]" "''m1''"] g c x
  have r1: "fst (send_email sample_library ?w ''a@b.c'' ''Hi'' ''x<y'') =
     Inr ''Successfully sent email to a@b.c with Message ID: m1''"
    by simp
  from send_email_outcomes [of ?l2 ?w "''a@b.c''" "''Hi''" "''x<y''" ?svc ?w1 ?p
      "[(''threadId'', ''t1'')]"] g2 c2 x2
  have r2: "fst (send_email ?l2 ?w ''a@b.c'' ''Hi'' ''x<y'') =
     Inr (''An unexpected error occurred: '' @ quoted ''id'')"
    by simp
  from send_email_outcomes [of ?l3 ?w "''a@b.c''" "''Hi''" "''x<y''" ?svc ?w1 ?p _ _
      "HttpError ''quota''"] g3 c3 x3
  have r3: "fst (send_email ?l3 ?w ''a@b.c'' ''Hi'' ''x<y'') = Inr ''Failed to send email. Error: quota''"
    by simp
  from send_email_outcomes [of sample_library ?w "''a@b.c''" "''Hi'' @ [CHR 0x0A] @ ''there''"
      "''x<y''" ?svc ?w1 _ _ _ ?ve] g c4
  have r4: "fst (send_email sample_library ?w ''a@b.c'' (''Hi'' @ [CHR 0x0A] @ ''there'') ''x<y'') =
     Inr ''An unexpected error occurred: Header values may not contain linefeed or carriage return characters''"
    by simp
  from send_email_outcomes [of sample_library empty_world "''a@b.c''" "''Hi''" "''x<y''" _ ?wn _ _ _ ?fe] g0
  have r5: "fst (send_email sample_library empty_world ''a@b.c'' ''Hi'' ''x<y'') =
     Inr (''An unexpected error occurred: Error: '' @ quoted ''credentials.json'' @ '' not found. '' @
          ''Please ensure the credentials file is in the same directory as the server script.'')"
    by simp
  from r1 r2 r3 r4 r5 show ?thesis by simp
qed

end
